theory Spec2Isabelle
  imports Complex_Main
begin

section \<open>Stillinger-Weber force evaluation (force\_stiweb.c)\<close>

text \<open>
  A shallow embedding of \<^verbatim>\<open>update_stiweb_pointers\<close> and \<^verbatim>\<open>calc_forces_stiweb\<close>.

  Conventions of the embedding.
  \<^item> A C \<^verbatim>\<open>double\<close> is a \<^typ>\<open>real\<close>: the arithmetic is exact, so rounding, overflow
    and the special values produced by the arithmetic itself are outside the model,
    with two exceptions. The one place where the code asks for a special value,
    \<^verbatim>\<open>isnan(sum)\<close>, is modelled with the type \<open>double\<close> below, in which the
    objective is held. The nine force updates of a triple (lines 301-314), whose
    contributions are meant to cancel, round every result with the function \<open>fl\<close> of
    the build: the identity gives exact arithmetic, \<open>round_double\<close> the rounding
    to the nearest double.
  \<^item> A \<^verbatim>\<open>double *\<close> is an address counted in doubles (a \<^typ>\<open>nat\<close>), \<^verbatim>\<open>NULL\<close> is
    address 0, and the memory the parameter vector lives in is a function from
    addresses to values. \<^verbatim>\<open>xi + index\<close> is addition of addresses.
  \<^item> Array indices and counts are \<^typ>\<open>nat\<close>; an \<^verbatim>\<open>int\<close> used as a truth value stays an
    \<^typ>\<open>int\<close> and is tested against 0.
  \<^item> Struct fields carry the struct's name as a prefix (\<open>sw_A\<close> for \<^verbatim>\<open>sw->A\<close>,
    \<open>neigh_r\<close> for \<^verbatim>\<open>neigh->r\<close>), since one-letter constants would capture the
    variables of every later statement.
  \<^item> The preprocessor switches \<^verbatim>\<open>MPI\<close>, \<^verbatim>\<open>STRESS\<close>, \<^verbatim>\<open>FWEIGHT\<close> and \<^verbatim>\<open>CONTRIB\<close>
    are fields of a record \<open>build\<close>.
\<close>

subsection \<open>Loops\<close>

text \<open>\<^verbatim>\<open>for (i = lo; i < n; i++) body\<close>, for a body that changes neither \<open>i\<close> nor \<open>n\<close>.\<close>

function for_loop :: "nat \<Rightarrow> nat \<Rightarrow> (nat \<Rightarrow> 's \<Rightarrow> 's) \<Rightarrow> 's \<Rightarrow> 's" where
  "for_loop i n body s = (if i < n then for_loop (Suc i) n body (body i s) else s)"
  by pat_completeness auto
termination
  by (relation "measure (\<lambda>(i, n, body, s). n - i)") auto

declare for_loop.simps [simp del]

subsection \<open>The parameter views\<close>

type_synonym addr = nat

definition NULL :: addr where
  "NULL = 0"

text \<open>
  \<^verbatim>\<open>sw_t\<close>: every view is an array of pointers into the parameter vector;
  \<^verbatim>\<open>lambda\<close> is a three-level table of such pointers.
\<close>

record sw_t =
  sw_init :: int
  sw_A :: "addr list"
  sw_B :: "addr list"
  sw_p :: "addr list"
  sw_q :: "addr list"
  sw_delta :: "addr list"
  sw_a1 :: "addr list"
  sw_gamma :: "addr list"
  sw_a2 :: "addr list"
  sw_lambda :: "addr list list list"

text \<open>The static \<^verbatim>\<open>apot_table.sw\<close> before its first use: all zero.\<close>

definition sw_zero :: sw_t where
  "sw_zero = \<lparr> sw_init = 0, sw_A = [], sw_B = [], sw_p = [], sw_q = [], sw_delta = [],
                sw_a1 = [], sw_gamma = [], sw_a2 = [], sw_lambda = [] \<rparr>"

text \<open>
  The allocation block (lines 437-464). The eight pair arrays get \<open>paircol\<close> entries
  set to \<^verbatim>\<open>NULL\<close>. The rows of \<^verbatim>\<open>lambda\<close> come from \<^verbatim>\<open>malloc\<close> and are not initialised;
  the model fills them with \<^verbatim>\<open>NULL\<close>. Its outer table is allocated with \<open>paircol\<close>
  entries of which the first \<open>ntypes\<close> are set; the model keeps those.
\<close>

definition sw_alloc :: "nat \<Rightarrow> nat \<Rightarrow> sw_t \<Rightarrow> sw_t" where
  "sw_alloc paircol ntypes sw =
     sw\<lparr> sw_A := replicate paircol NULL, sw_B := replicate paircol NULL,
         sw_p := replicate paircol NULL, sw_q := replicate paircol NULL,
         sw_delta := replicate paircol NULL, sw_a1 := replicate paircol NULL,
         sw_gamma := replicate paircol NULL, sw_a2 := replicate paircol NULL,
         sw_lambda := replicate ntypes (replicate ntypes (replicate ntypes NULL)),
         sw_init := 1 \<rparr>"

text \<open>
  The bodies of the three assignment loops (lines 469-487). The loop state is the
  running \<^verbatim>\<open>index\<close> and the views. A write \<open>xs[i := v]\<close> beyond the allocated length
  does nothing here and is undefined behaviour in C; it cannot happen when the
  arrays were allocated for the same \<open>paircol\<close> and \<open>ntypes\<close>.
\<close>

definition set_pair :: "addr \<Rightarrow> nat \<Rightarrow> nat \<times> sw_t \<Rightarrow> nat \<times> sw_t" where
  "set_pair xi i = (\<lambda>(index, sw).
     (index + 8,
      sw\<lparr> sw_A := (sw_A sw)[i := xi + index],
          sw_B := (sw_B sw)[i := xi + (index + 1)],
          sw_p := (sw_p sw)[i := xi + (index + 2)],
          sw_q := (sw_q sw)[i := xi + (index + 3)],
          sw_delta := (sw_delta sw)[i := xi + (index + 4)],
          sw_a1 := (sw_a1 sw)[i := xi + (index + 5)] \<rparr>))"

definition set_envelope :: "addr \<Rightarrow> nat \<Rightarrow> nat \<times> sw_t \<Rightarrow> nat \<times> sw_t" where
  "set_envelope xi i = (\<lambda>(index, sw).
     (index + 4,
      sw\<lparr> sw_gamma := (sw_gamma sw)[i := xi + index],
          sw_a2 := (sw_a2 sw)[i := xi + (index + 1)] \<rparr>))"

definition set_lambda :: "addr \<Rightarrow> nat \<Rightarrow> nat \<Rightarrow> nat \<Rightarrow> nat \<times> sw_t \<Rightarrow> nat \<times> sw_t" where
  "set_lambda xi i j k = (\<lambda>(index, sw).
     (index + 1,
      sw\<lparr> sw_lambda :=
            (sw_lambda sw)[i := (sw_lambda sw ! i)[j := (sw_lambda sw ! i ! j)[k := xi + index]]] \<rparr>))"

definition update_stiweb_pointers :: "nat \<Rightarrow> nat \<Rightarrow> addr \<Rightarrow> sw_t \<Rightarrow> sw_t" where
  "update_stiweb_pointers paircol ntypes xi sw0 =
     (let index = 2;
          sw = (if 0 = sw_init sw0 then sw_alloc paircol ntypes sw0 else sw0)
      in if sw_A sw ! 0 \<noteq> xi + index then
           snd (for_loop 0 ntypes
                  (\<lambda>i. for_loop 0 ntypes (\<lambda>j. for_loop 0 ntypes (\<lambda>k. set_lambda xi i j k)))
                  (for_loop 0 paircol (set_envelope xi)
                     (for_loop 0 paircol (set_pair xi) (index, sw))))
         else sw)"

subsection \<open>Configuration data\<close>

text \<open>\<^verbatim>\<open>vector\<close>; the C fields are \<^verbatim>\<open>x\<close>, \<^verbatim>\<open>y\<close>, \<^verbatim>\<open>z\<close>.\<close>

record vector =
  vec_x :: real
  vec_y :: real
  vec_z :: real

text \<open>
  \<^verbatim>\<open>neigh_t\<close>, \<^verbatim>\<open>angl\<close> and \<^verbatim>\<open>atom_t\<close>, with the fields this file reads or writes.
  \<open>neigh_col\<close> is \<^verbatim>\<open>col[0]\<close>. The array \<^verbatim>\<open>neigh\<close> and its length \<^verbatim>\<open>n_neigh\<close> are one
  list.
\<close>

record neigh_t =
  neigh_typ :: nat
  neigh_nr :: nat
  neigh_r :: real
  neigh_inv_r :: real
  neigh_dist :: vector
  neigh_rdist :: vector
  neigh_col :: nat
  neigh_f :: real
  neigh_df :: real
  neigh_ijk_start :: nat

record angl =
  angl_cos :: real

record atom_t =
  atom_typ :: nat
  atom_absforce :: real
  atom_contrib :: int
  atom_neigh :: "neigh_t list"
  atom_angl_part :: "angl list"

definition n_neigh :: "atom_t \<Rightarrow> nat" where
  "n_neigh a = length (atom_neigh a)"

text \<open>
  The preprocessor switches this file tests, and the rounding \<open>fl\<close> of the double
  arithmetic of the target, which maps the exact result of an operation to the
  double that is stored.
\<close>

record build =
  MPI :: bool
  STRESS :: bool
  FWEIGHT :: bool
  CONTRIB :: bool
  fl :: "real \<Rightarrow> real"

text \<open>
  The globals of \<^verbatim>\<open>potfit.h\<close> that the evaluation reads and never writes. Their
  declarations are not part of this file, so they are parameters; \<open>FORCE_EPS\<close> is the
  macro of that name.
\<close>

record globals =
  myid :: int
  nconf :: nat
  firstconf :: nat
  firstatom :: nat
  paircol :: nat
  ntypes :: nat
  ndimtot :: nat
  energy_p :: nat
  stress_p :: nat
  inconf :: "nat \<Rightarrow> nat"
  cnfstart :: "nat \<Rightarrow> nat"
  conf_uf :: "nat \<Rightarrow> int"
  conf_us :: "nat \<Rightarrow> int"
  conf_weight :: "nat \<Rightarrow> real"
  conf_vol :: "nat \<Rightarrow> real"
  force_0 :: "nat \<Rightarrow> real"
  eweight :: real
  sweight :: real
  FORCE_EPS :: real

text \<open>
  What a call can change: the memory of the parameter vector, the output buffer
  \<^verbatim>\<open>forces\<close> (a separate array, indexed from 0), the views, the atoms (whose
  neighbours cache \<open>f\<close> and \<open>df\<close>), the counters \<^verbatim>\<open>fcalls\<close> and \<^verbatim>\<open>myconf\<close>, and the
  locals \<^verbatim>\<open>tmpsum\<close>, \<^verbatim>\<open>atom\<close> and \<^verbatim>\<open>v2_grad\<close> that live across the loops. \<open>atom\<close> is
  the pointer \<^verbatim>\<open>atom\<close> as an index into \<^verbatim>\<open>conf_atoms\<close>; \<open>last_v2_grad\<close> is the local
  \<^verbatim>\<open>v2_grad\<close> as the last pair term left it (the code declares it without a value,
  so what it holds before its first assignment is whatever the state holds).
\<close>

record state =
  mem :: "addr \<Rightarrow> real"
  forces :: "nat \<Rightarrow> real"
  sw :: sw_t
  conf_atoms :: "atom_t list"
  fcalls :: int
  myconf :: nat
  tmpsum :: real
  atom :: nat
  last_v2_grad :: real

subsection \<open>Helpers from other files\<close>

text \<open>
  Modelled from the spec: \<^verbatim>\<open>dsquare\<close> (a macro of \<^verbatim>\<open>potfit.h\<close>) is missing here;
  the spec speaks of the "squared residual".
\<close>

definition dsquare :: "real \<Rightarrow> real" where
  "dsquare v = v * v"

text \<open>
  Modelled from the spec: \<^verbatim>\<open>power_m\<close> (of \<^verbatim>\<open>utils.c\<close>) is missing here; the spec
  calls it "a combined two-exponent power routine" giving \<open>r^-p\<close> and \<open>r^-q\<close>:
  \<open>result[i] = x[i]\<close> to the power \<open>y[i]\<close> for \<open>i < n\<close>. \<open>powr\<close> is the real power
  of a positive base.
\<close>

definition power_m :: "nat \<Rightarrow> real list \<Rightarrow> real list \<Rightarrow> real list" where
  "power_m n xs ys = map (\<lambda>i. (xs ! i) powr (ys ! i)) [0..<n]"

text \<open>\<^verbatim>\<open>forces[i] += v\<close> and \<^verbatim>\<open>forces[i] -= v\<close>.\<close>

definition add_to :: "(nat \<Rightarrow> real) \<Rightarrow> nat \<Rightarrow> real \<Rightarrow> (nat \<Rightarrow> real)" where
  "add_to fs i v = fs(i := fs i + v)"

definition sub_from :: "(nat \<Rightarrow> real) \<Rightarrow> nat \<Rightarrow> real \<Rightarrow> (nat \<Rightarrow> real)" where
  "sub_from fs i v = fs(i := fs i - v)"

subsection \<open>The pair term (lines 188-234)\<close>

text \<open>
  The locals of the pair evaluation, lines 191-204, before the halving for a
  self-interaction. \<^verbatim>\<open>v2_grad\<close> is assigned only under \<^verbatim>\<open>uf\<close> (lines 201-204);
  otherwise it keeps the value \<open>v2_grad0\<close> it had before.
\<close>

record pair_locals =
  phi_r :: real
  phi_a :: real
  f_cut :: real
  v2_val :: real
  v2_grad :: real

definition pair_eval :: "(addr \<Rightarrow> real) \<Rightarrow> sw_t \<Rightarrow> int \<Rightarrow> real \<Rightarrow> neigh_t \<Rightarrow> pair_locals" where
  "pair_eval m s uf v2_grad0 neigh_j =
     (let col = neigh_col neigh_j;
          x0 = neigh_r neigh_j;
          x1 = x0;
          y0 = - m (sw_p s ! col);
          y1 = - m (sw_q s ! col);
          pw = power_m 2 [x0, x1] [y0, y1];
          phir = m (sw_A s ! col) * pw ! 0;
          phia = - m (sw_B s ! col) * pw ! 1;
          inv_c = 1 / (neigh_r neigh_j - m (sw_a1 s ! col));
          fcut = exp (m (sw_delta s ! col) * inv_c);
          v2 = (phir + phia) * fcut;
          v2g = (if uf \<noteq> 0
                 then - v2 * m (sw_delta s ! col) * inv_c * inv_c
                      - fcut * neigh_inv_r neigh_j * (m (sw_p s ! col) * phir + m (sw_q s ! col) * phia)
                 else v2_grad0)
      in \<lparr> phi_r = phir, phi_a = phia, f_cut = fcut, v2_val = v2, v2_grad = v2g \<rparr>)"

text \<open>The six pair stress updates, lines 224-230.\<close>

definition pair_stress :: "nat \<Rightarrow> vector \<Rightarrow> vector \<Rightarrow> (nat \<Rightarrow> real) \<Rightarrow> (nat \<Rightarrow> real)" where
  "pair_stress stresses rdist tmp_force fs =
     (let fs0 = sub_from fs stresses (0.5 * vec_x rdist * vec_x tmp_force);
          fs1 = sub_from fs0 (stresses + 1) (0.5 * vec_y rdist * vec_y tmp_force);
          fs2 = sub_from fs1 (stresses + 2) (0.5 * vec_z rdist * vec_z tmp_force);
          fs3 = sub_from fs2 (stresses + 3) (0.5 * vec_x rdist * vec_y tmp_force);
          fs4 = sub_from fs3 (stresses + 4) (0.5 * vec_y rdist * vec_z tmp_force)
      in sub_from fs4 (stresses + 5) (0.5 * vec_z rdist * vec_x tmp_force))"

text \<open>
  The pair part for neighbour \<open>neigh_j\<close> of atom \<open>i\<close> of configuration \<open>h\<close>, as a change
  of the local \<^verbatim>\<open>v2_grad\<close> and of the output buffer. The halving of line 208 acts on
  the local also when line 202 did not assign it.
\<close>

definition pair_term ::
  "build \<Rightarrow> globals \<Rightarrow> (addr \<Rightarrow> real) \<Rightarrow> sw_t \<Rightarrow> nat \<Rightarrow> nat \<Rightarrow> neigh_t \<Rightarrow>
   real \<times> (nat \<Rightarrow> real) \<Rightarrow> real \<times> (nat \<Rightarrow> real)" where
  "pair_term b g m s h i neigh_j = (\<lambda>(v2_grad0, fs).
     (let uf = conf_uf g (h - firstconf g);
          us = conf_us g (h - firstconf g);
          k = 3 * (cnfstart g h + i);
          self = (neigh_nr neigh_j = i + cnfstart g h);
          col = neigh_col neigh_j
      in if neigh_r neigh_j < m (sw_a1 s ! col) then
           (let pl = pair_eval m s uf v2_grad0 neigh_j;
                v2 = (if self then v2_val pl * 0.5 else v2_val pl);
                v2g = (if self then v2_grad pl * 0.5 else v2_grad pl);
                fs1 = add_to fs (energy_p g + h) (0.5 * v2)
            in (v2g,
                if uf \<noteq> 0 then
                  (let tmp_force = \<lparr> vec_x = vec_x (neigh_dist neigh_j) * v2g,
                                     vec_y = vec_y (neigh_dist neigh_j) * v2g,
                                     vec_z = vec_z (neigh_dist neigh_j) * v2g \<rparr>;
                       fs2 = add_to fs1 k (vec_x tmp_force);
                       fs3 = add_to fs2 (k + 1) (vec_y tmp_force);
                       fs4 = add_to fs3 (k + 2) (vec_z tmp_force)
                   in if STRESS b \<and> us \<noteq> 0
                      then pair_stress (stress_p g + 6 * h) (neigh_rdist neigh_j) tmp_force fs4
                      else fs4)
                else fs1))
         else (v2_grad0, fs)))"

subsection \<open>The cutoff envelope (lines 236-248)\<close>

definition envelope :: "(addr \<Rightarrow> real) \<Rightarrow> sw_t \<Rightarrow> neigh_t \<Rightarrow> neigh_t" where
  "envelope m s neigh_j =
     (let col = neigh_col neigh_j
      in if neigh_r neigh_j < m (sw_a2 s ! col) then
           (let tmp_r = neigh_r neigh_j - m (sw_a2 s ! col)
            in if tmp_r < - 0.01 * m (sw_gamma s ! col) then
                 (let tmp_r1 = 1 / tmp_r;
                      f = exp (m (sw_gamma s ! col) * tmp_r1)
                  in neigh_j\<lparr> neigh_f := f,
                              neigh_df := - f * m (sw_gamma s ! col) * tmp_r1 * tmp_r1 / neigh_r neigh_j \<rparr>)
               else neigh_j\<lparr> neigh_f := 0, neigh_df := 0 \<rparr>)
         else neigh_j)"

text \<open>
  The body of the loop over the neighbours \<open>j\<close> (lines 182-249): the pair term, then
  the envelope stored in the neighbour. The loop state is the atom, the local
  \<^verbatim>\<open>v2_grad\<close> and the buffer.
\<close>

definition neigh_pass ::
  "build \<Rightarrow> globals \<Rightarrow> (addr \<Rightarrow> real) \<Rightarrow> sw_t \<Rightarrow> nat \<Rightarrow> nat \<Rightarrow> nat \<Rightarrow>
   atom_t \<times> real \<times> (nat \<Rightarrow> real) \<Rightarrow> atom_t \<times> real \<times> (nat \<Rightarrow> real)" where
  "neigh_pass b g m s h i j = (\<lambda>(a, loc).
     (let neigh_j = atom_neigh a ! j
      in (a\<lparr> atom_neigh := (atom_neigh a)[j := envelope m s neigh_j] \<rparr>,
          pair_term b g m s h i neigh_j loc)))"

subsection \<open>The three-body term (lines 251-334)\<close>

text \<open>
  The locals of one triple, lines 274-299, for the coupling \<open>lam\<close> (the value of
  \<^verbatim>\<open>*(sw->lambda[atom->typ][neigh_j->typ][neigh_k->typ])\<close>).
\<close>

record triple_locals =
  v3_val :: real
  force_j :: vector
  force_k :: vector

definition triple_eval :: "real \<Rightarrow> neigh_t \<Rightarrow> neigh_t \<Rightarrow> angl \<Rightarrow> triple_locals" where
  "triple_eval lam neigh_j neigh_k n_angl =
     (let tmp = angl_cos n_angl + 1 / 3;
          v3 = lam * neigh_f neigh_j * neigh_f neigh_k * tmp * tmp;
          tmp_grad1 = lam * neigh_f neigh_j * neigh_f neigh_k * 2 * tmp;
          tmp_grad2 = lam * tmp * tmp;
          tmp_jj = 1 / (neigh_r neigh_j * neigh_r neigh_j);
          tmp_jk = 1 / (neigh_r neigh_j * neigh_r neigh_k);
          tmp_kk = 1 / (neigh_r neigh_k * neigh_r neigh_k);
          tmp_1 = tmp_grad2 * neigh_df neigh_j * neigh_f neigh_k - tmp_grad1 * angl_cos n_angl * tmp_jj;
          tmp_2 = tmp_grad1 * tmp_jk;
          fj = \<lparr> vec_x = tmp_1 * vec_x (neigh_rdist neigh_j) + tmp_2 * vec_x (neigh_rdist neigh_k),
                 vec_y = tmp_1 * vec_y (neigh_rdist neigh_j) + tmp_2 * vec_y (neigh_rdist neigh_k),
                 vec_z = tmp_1 * vec_z (neigh_rdist neigh_j) + tmp_2 * vec_z (neigh_rdist neigh_k) \<rparr>;
          tmp_1k = tmp_grad2 * neigh_df neigh_k * neigh_f neigh_j - tmp_grad1 * angl_cos n_angl * tmp_kk;
          fk = \<lparr> vec_x = tmp_1k * vec_x (neigh_rdist neigh_k) + tmp_2 * vec_x (neigh_rdist neigh_j),
                 vec_y = tmp_1k * vec_y (neigh_rdist neigh_k) + tmp_2 * vec_y (neigh_rdist neigh_j),
                 vec_z = tmp_1k * vec_z (neigh_rdist neigh_k) + tmp_2 * vec_z (neigh_rdist neigh_j) \<rparr>
      in \<lparr> v3_val = v3, force_j = fj, force_k = fk \<rparr>)"

text \<open>
  \<^verbatim>\<open>forces[i] += v\<close> and \<^verbatim>\<open>forces[i] -= v\<close> with the result rounded by \<open>rnd\<close>.
\<close>

definition add_fl :: "(real \<Rightarrow> real) \<Rightarrow> (nat \<Rightarrow> real) \<Rightarrow> nat \<Rightarrow> real \<Rightarrow> (nat \<Rightarrow> real)" where
  "add_fl rnd fs i v = fs(i := rnd (fs i + v))"

definition sub_fl :: "(real \<Rightarrow> real) \<Rightarrow> (nat \<Rightarrow> real) \<Rightarrow> nat \<Rightarrow> real \<Rightarrow> (nat \<Rightarrow> real)" where
  "sub_fl rnd fs i v = fs(i := rnd (fs i - v))"

text \<open>
  The nine force updates of one triple, lines 301-314, in the arithmetic with the
  rounding \<open>rnd\<close>: the sum \<^verbatim>\<open>force_j.x + force_k.x\<close> is one rounded double, which is
  then added to the slot of atom \<open>i\<close>; \<^verbatim>\<open>force_j\<close> and \<^verbatim>\<open>force_k\<close> are subtracted from
  the slots of the atoms \<open>j\<close> and \<open>k\<close> one by one.
\<close>

definition triple_forces ::
  "(real \<Rightarrow> real) \<Rightarrow> nat \<Rightarrow> nat \<Rightarrow> nat \<Rightarrow> vector \<Rightarrow> vector \<Rightarrow> (nat \<Rightarrow> real) \<Rightarrow> (nat \<Rightarrow> real)" where
  "triple_forces rnd k l n fj fk fs =
     (let fs1 = add_fl rnd fs k (rnd (vec_x fj + vec_x fk));
          fs2 = add_fl rnd fs1 (k + 1) (rnd (vec_y fj + vec_y fk));
          fs3 = add_fl rnd fs2 (k + 2) (rnd (vec_z fj + vec_z fk));
          fs4 = sub_fl rnd fs3 l (vec_x fj);
          fs5 = sub_fl rnd fs4 (l + 1) (vec_y fj);
          fs6 = sub_fl rnd fs5 (l + 2) (vec_z fj);
          fs7 = sub_fl rnd fs6 n (vec_x fk);
          fs8 = sub_fl rnd fs7 (n + 1) (vec_y fk)
      in sub_fl rnd fs8 (n + 2) (vec_z fk))"

text \<open>The six three-body stress updates, lines 318-327.\<close>

definition triple_stress ::
  "nat \<Rightarrow> vector \<Rightarrow> vector \<Rightarrow> vector \<Rightarrow> vector \<Rightarrow> (nat \<Rightarrow> real) \<Rightarrow> (nat \<Rightarrow> real)" where
  "triple_stress stresses fj rj fk rk fs =
     (let fs0 = add_to fs stresses (vec_x fj * vec_x rj + vec_x fk * vec_x rk);
          fs1 = add_to fs0 (stresses + 1) (vec_y fj * vec_y rj + vec_y fk * vec_y rk);
          fs2 = add_to fs1 (stresses + 2) (vec_z fj * vec_z rj + vec_z fk * vec_z rk);
          fs3 = add_to fs2 (stresses + 3)
                  (0.5 * (vec_y fj * vec_z rj + vec_y fk * vec_z rk
                          + vec_z fj * vec_y rj + vec_z fk * vec_y rk));
          fs4 = add_to fs3 (stresses + 4)
                  (0.5 * (vec_z fj * vec_x rj + vec_z fk * vec_x rk
                          + vec_x fj * vec_z rj + vec_x fk * vec_z rk))
      in add_to fs4 (stresses + 5)
           (0.5 * (vec_x fj * vec_y rj + vec_x fk * vec_y rk
                   + vec_y fj * vec_x rj + vec_y fk * vec_x rk)))"

text \<open>
  The body of the loop over \<open>kk\<close> (lines 262-331) for the neighbour \<open>jj\<close> of atom \<open>i\<close>;
  \<open>a\<close> is \<^verbatim>\<open>*atom\<close>. The loop state is the running \<^verbatim>\<open>ijk\<close> and the buffer. \<^verbatim>\<open>continue\<close>
  is the branch that leaves the buffer as it is.
\<close>

definition triple_term ::
  "build \<Rightarrow> globals \<Rightarrow> (addr \<Rightarrow> real) \<Rightarrow> sw_t \<Rightarrow> nat \<Rightarrow> nat \<Rightarrow> atom_t \<Rightarrow> nat \<Rightarrow> nat \<Rightarrow>
   nat \<times> (nat \<Rightarrow> real) \<Rightarrow> nat \<times> (nat \<Rightarrow> real)" where
  "triple_term b g m s h i a jj kk = (\<lambda>(ijk, fs).
     (let us = conf_us g (h - firstconf g);
          k = 3 * (cnfstart g h + i);
          neigh_j = atom_neigh a ! jj;
          l = 3 * neigh_nr neigh_j;
          n_angl = atom_angl_part a ! ijk;
          neigh_k = atom_neigh a ! kk;
          n = 3 * neigh_nr neigh_k
      in (ijk + 1,
          if neigh_r neigh_k < m (sw_a2 s ! neigh_col neigh_k) then
            (let lam = m (sw_lambda s ! atom_typ a ! neigh_typ neigh_j ! neigh_typ neigh_k)
             in if 0 = lam then fs
                else
                  (let tl = triple_eval lam neigh_j neigh_k n_angl;
                       fs1 = add_to fs (energy_p g + h) (v3_val tl);
                       fs2 = triple_forces (fl b) k l n (force_j tl) (force_k tl) fs1
                   in if STRESS b \<and> us \<noteq> 0
                      then triple_stress (stress_p g + 6 * h) (force_j tl) (neigh_rdist neigh_j)
                             (force_k tl) (neigh_rdist neigh_k) fs2
                      else fs2))
          else fs)))"

text \<open>The body of the loop over \<open>jj\<close> (lines 252-334).\<close>

definition triple_pass ::
  "build \<Rightarrow> globals \<Rightarrow> (addr \<Rightarrow> real) \<Rightarrow> sw_t \<Rightarrow> nat \<Rightarrow> nat \<Rightarrow> atom_t \<Rightarrow> nat \<Rightarrow>
   (nat \<Rightarrow> real) \<Rightarrow> (nat \<Rightarrow> real)" where
  "triple_pass b g m s h i a jj fs =
     (let neigh_j = atom_neigh a ! jj;
          ijk = neigh_ijk_start neigh_j
      in if neigh_r neigh_j < m (sw_a2 s ! neigh_col neigh_j)
         then snd (for_loop (jj + 1) (n_neigh a) (triple_term b g m s h i a jj) (ijk, fs))
         else fs)"

subsection \<open>One configuration (lines 151-375)\<close>

text \<open>The body of the first loop over the atoms, lines 163-173.\<close>

definition reset_force :: "globals \<Rightarrow> nat \<Rightarrow> nat \<Rightarrow> (nat \<Rightarrow> real) \<Rightarrow> (nat \<Rightarrow> real)" where
  "reset_force g h i fs =
     (let uf = conf_uf g (h - firstconf g);
          k = 3 * (cnfstart g h + i)
      in if uf \<noteq> 0
         then fs(k := - force_0 g k, k + 1 := - force_0 g (k + 1), k + 2 := - force_0 g (k + 2))
         else fs(k := 0, k + 1 := 0, k + 2 := 0))"

text \<open>
  The body of the second loop over the atoms, lines 179-335. It sets the pointer
  \<^verbatim>\<open>atom\<close>, runs the loop over the neighbours and then the loops over the triples,
  which read the envelopes just stored.
\<close>

definition atom_pass :: "build \<Rightarrow> globals \<Rightarrow> nat \<Rightarrow> nat \<Rightarrow> state \<Rightarrow> state" where
  "atom_pass b g h i st =
     (let ai = i + cnfstart g h - firstatom g;
          (a1, v2g1, fs1) = for_loop 0 (n_neigh (conf_atoms st ! ai))
                              (neigh_pass b g (mem st) (sw st) h i)
                              (conf_atoms st ! ai, last_v2_grad st, forces st);
          fs2 = for_loop 0 (n_neigh a1 - 1) (triple_pass b g (mem st) (sw st) h i a1) fs1
      in st\<lparr> atom := ai, conf_atoms := (conf_atoms st)[ai := a1], last_v2_grad := v2g1,
             forces := fs2 \<rparr>)"

text \<open>
  The body of the third loop over the atoms, lines 342-355. It reads \<^verbatim>\<open>atom\<close> without
  assigning it: the pointer still has the value the second loop left in it.
\<close>

definition sum_force :: "build \<Rightarrow> globals \<Rightarrow> nat \<Rightarrow> nat \<Rightarrow> state \<Rightarrow> state" where
  "sum_force b g h i st =
     (let n_i = 3 * (cnfstart g h + i);
          a = conf_atoms st ! atom st;
          fs = forces st;
          fs3 = (if FWEIGHT b then
                   (let fs1 = fs(n_i + 0 := fs (n_i + 0) / (FORCE_EPS g + atom_absforce a));
                        fs2 = fs1(n_i + 1 := fs1 (n_i + 1) / (FORCE_EPS g + atom_absforce a))
                    in fs2(n_i + 2 := fs2 (n_i + 2) / (FORCE_EPS g + atom_absforce a)))
                 else fs)
      in if CONTRIB b \<longrightarrow> atom_contrib a \<noteq> 0
         then st\<lparr> forces := fs3,
                  tmpsum := tmpsum st + conf_weight g h *
                    (dsquare (fs3 n_i) + dsquare (fs3 (n_i + 1)) + dsquare (fs3 (n_i + 2))) \<rparr>
         else st\<lparr> forces := fs3 \<rparr>)"

text \<open>The energy contributions, lines 361-363.\<close>

definition energy_contrib :: "globals \<Rightarrow> nat \<Rightarrow> state \<Rightarrow> state" where
  "energy_contrib g h st =
     (let fs1 = (forces st)(energy_p g + h := forces st (energy_p g + h) / real (inconf g h));
          fs2 = fs1(energy_p g + h := fs1 (energy_p g + h) - force_0 g (energy_p g + h))
      in st\<lparr> forces := fs2,
              tmpsum := tmpsum st + conf_weight g h * eweight g * dsquare (fs2 (energy_p g + h)) \<rparr>)"

text \<open>The body of the loop over the stress components, lines 368-370.\<close>

definition stress_contrib :: "globals \<Rightarrow> nat \<Rightarrow> nat \<Rightarrow> state \<Rightarrow> state" where
  "stress_contrib g h i st =
     (let c = stress_p g + 6 * h + i;
          fs1 = (forces st)(c := forces st c / conf_vol g (h - firstconf g));
          fs2 = fs1(c := fs1 c - force_0 g c)
      in st\<lparr> forces := fs2,
              tmpsum := tmpsum st + conf_weight g h * sweight g * dsquare (fs2 c) \<rparr>)"

text \<open>The body of the loop over the configurations, lines 152-374, in its parts.\<close>

definition conf_reset :: "build \<Rightarrow> globals \<Rightarrow> nat \<Rightarrow> state \<Rightarrow> state" where
  "conf_reset b g h st =
     (let st1 = st\<lparr> forces := (forces st)(energy_p g + h := 0) \<rparr>;
          st2 = (if STRESS b
                 then for_loop 0 6 (\<lambda>i t. t\<lparr> forces := (forces t)(stress_p g + 6 * h + i := 0) \<rparr>) st1
                 else st1)
      in for_loop 0 (inconf g h) (\<lambda>i t. t\<lparr> forces := reset_force g h i (forces t) \<rparr>) st2)"

definition conf_passes :: "build \<Rightarrow> globals \<Rightarrow> nat \<Rightarrow> state \<Rightarrow> state" where
  "conf_passes b g h st = for_loop 0 (inconf g h) (atom_pass b g h) (conf_reset b g h st)"

definition conf_forces :: "build \<Rightarrow> globals \<Rightarrow> nat \<Rightarrow> state \<Rightarrow> state" where
  "conf_forces b g h st =
     (if conf_uf g (h - firstconf g) \<noteq> 0
      then for_loop 0 (inconf g h) (sum_force b g h) st
      else st)"

definition conf_stress :: "build \<Rightarrow> globals \<Rightarrow> nat \<Rightarrow> state \<Rightarrow> state" where
  "conf_stress b g h st =
     (if STRESS b \<and> conf_uf g (h - firstconf g) \<noteq> 0 \<and> conf_us g (h - firstconf g) \<noteq> 0
      then for_loop 0 6 (stress_contrib g h) st
      else st)"

definition conf_step :: "build \<Rightarrow> globals \<Rightarrow> nat \<Rightarrow> state \<Rightarrow> state" where
  "conf_step b g h st =
     conf_stress b g h (energy_contrib g h (conf_forces b g h (conf_passes b g h st)))"

subsection \<open>The evaluation loop (lines 90-428)\<close>

text \<open>
  The objective as the code returns it. \<open>NaN\<close> stands for the values \<^verbatim>\<open>isnan\<close> accepts;
  it can enter through the helpers of other files and through the reduction, and
  an addition with it gives it back.
\<close>

datatype double = Fin real | NaN

fun dadd :: "double \<Rightarrow> double \<Rightarrow> double" where
  "dadd (Fin u) (Fin v) = Fin (u + v)"
| "dadd (Fin u) NaN = NaN"
| "dadd NaN v = NaN"

fun isnan :: "double \<Rightarrow> bool" where
  "isnan NaN = True"
| "isnan (Fin u) = False"

text \<open>
  \<^verbatim>\<open>apot_check_params(xi_opt)\<close> (the clamping of the parameters, in place) and
  \<^verbatim>\<open>apot_punish(xi_opt, forces)\<close> (the penalty, which may also write to the buffer)
  are defined in other files and are parameters here.
\<close>

record extern =
  apot_check_params :: "(addr \<Rightarrow> real) \<Rightarrow> addr \<Rightarrow> (addr \<Rightarrow> real)"
  apot_punish :: "(addr \<Rightarrow> real) \<Rightarrow> addr \<Rightarrow> (nat \<Rightarrow> real) \<Rightarrow> double \<times> (nat \<Rightarrow> real)"

text \<open>
  What the other ranks contribute to one pass through the loop, seen from this
  process: the flag and the parameter vector the root broadcasts (read by the other
  ranks), the sum of the other ranks' \<^verbatim>\<open>tmpsum\<close> and the buffer after the three
  \<^verbatim>\<open>MPI_Gatherv\<close> (read by the root).
\<close>

record mpi_round =
  bcast_flag :: int
  bcast_xi :: "nat \<Rightarrow> real"
  reduce_others :: double
  gathered :: "(nat \<Rightarrow> real) \<Rightarrow> (nat \<Rightarrow> real)"

text \<open>Lines 116-118: the root clamps, then \<^verbatim>\<open>MPI_Bcast(xi_opt, ndimtot, ...)\<close>.\<close>

definition receive :: "extern \<Rightarrow> globals \<Rightarrow> addr \<Rightarrow> mpi_round \<Rightarrow> state \<Rightarrow> state" where
  "receive ex g xi_opt rd st =
     (if 0 = myid g
      then st\<lparr> mem := apot_check_params ex (mem st) xi_opt \<rparr>
      else st\<lparr> mem := (\<lambda>a. if xi_opt \<le> a \<and> a < xi_opt + ndimtot g
                              then bcast_xi rd (a - xi_opt) else mem st a) \<rparr>)"

text \<open>Lines 121-376: the views, then the loop over the configurations of this process.\<close>

definition evaluate :: "build \<Rightarrow> globals \<Rightarrow> addr \<Rightarrow> state \<Rightarrow> state" where
  "evaluate b g xi_opt st =
     (let st1 = st\<lparr> sw := update_stiweb_pointers (paircol g) (ntypes g) xi_opt (sw st) \<rparr>
      in for_loop (firstconf g) (firstconf g + myconf st1) (conf_step b g) st1)"

text \<open>Lines 380-384: the penalty, added by the root, and the local sum.\<close>

definition local_sum :: "extern \<Rightarrow> globals \<Rightarrow> addr \<Rightarrow> state \<Rightarrow> double \<times> state" where
  "local_sum ex g xi_opt st =
     (if myid g = 0
      then (dadd (Fin (tmpsum st)) (fst (apot_punish ex (mem st) xi_opt (forces st))),
            st\<lparr> forces := snd (apot_punish ex (mem st) xi_opt (forces st)) \<rparr>)
      else (Fin (tmpsum st), st))"

text \<open>
  Lines 387-410: \<^verbatim>\<open>sum = 0.\<close>, then the reduction to the root and the gathering of the
  buffers at the root. The other ranks keep \<^verbatim>\<open>sum = 0\<close> and their buffer.
\<close>

definition reduce_gather :: "globals \<Rightarrow> mpi_round \<Rightarrow> double \<times> state \<Rightarrow> double \<times> state" where
  "reduce_gather g rd ts =
     (if myid g = 0
      then (dadd (fst ts) (reduce_others rd), (snd ts)\<lparr> forces := gathered rd (forces (snd ts)) \<rparr>)
      else (Fin 0, snd ts))"

text \<open>
  One pass through the body of \<^verbatim>\<open>while (1)\<close> up to the test of line 414, without
  \<^verbatim>\<open>MPI\<close> and with it (after the flag has been received and was not 1). The result
  is \<^verbatim>\<open>sum\<close> and the state.
\<close>

definition serial_iteration :: "build \<Rightarrow> extern \<Rightarrow> globals \<Rightarrow> addr \<Rightarrow> state \<Rightarrow> double \<times> state" where
  "serial_iteration b ex g xi_opt st =
     local_sum ex g xi_opt
       (evaluate b g xi_opt (st\<lparr> tmpsum := 0, mem := apot_check_params ex (mem st) xi_opt \<rparr>))"

definition mpi_iteration ::
  "build \<Rightarrow> extern \<Rightarrow> globals \<Rightarrow> addr \<Rightarrow> mpi_round \<Rightarrow> state \<Rightarrow> double \<times> state" where
  "mpi_iteration b ex g xi_opt rd st =
     reduce_gather g rd
       (local_sum ex g xi_opt (evaluate b g xi_opt (receive ex g xi_opt rd (st\<lparr> tmpsum := 0 \<rparr>))))"

text \<open>Lines 414-423: what the root returns. \<^verbatim>\<open>10e30\<close> is ten times \<open>10^30\<close>.\<close>

definition root_return :: "double \<times> state \<Rightarrow> double \<times> state" where
  "root_return ts =
     (if isnan (fst ts) then Fin (10 * 10 ^ 30) else fst ts,
      (snd ts)\<lparr> fcalls := fcalls (snd ts) + 1 \<rparr>)"

text \<open>
  The loop \<^verbatim>\<open>while (1)\<close>. With \<^verbatim>\<open>MPI\<close> every pass takes part in the collective
  operations of one round; \<open>rounds\<close> lists the rounds the other ranks take part in,
  and a process that waits for a round that never comes does not return
  (\<open>None\<close>). A rank other than the root reads the flag of the round; the root
  broadcasts its own. Flag 1 leaves the loop, and the function returns \<open>-1.0\<close>.
  Without \<^verbatim>\<open>MPI\<close> the flag is not read. A pass that ends with \<open>myid \<noteq> 0\<close> goes round
  again.
\<close>

partial_function (option) calc_loop ::
  "build \<Rightarrow> extern \<Rightarrow> globals \<Rightarrow> addr \<Rightarrow> mpi_round list \<Rightarrow> int \<Rightarrow> state \<Rightarrow> (double \<times> state) option" where
  "calc_loop b ex g xi_opt rounds flag st =
     (if MPI b then
        (case rounds of
           [] \<Rightarrow> None
         | rd # rest \<Rightarrow>
             (let flag1 = (if myid g = 0 then flag else bcast_flag rd)
              in if 1 = flag1 then Some (Fin (- 1), st\<lparr> tmpsum := 0 \<rparr>)
                 else if myid g = 0
                   then Some (root_return (mpi_iteration b ex g xi_opt rd st))
                   else calc_loop b ex g xi_opt rest flag1
                          (snd (mpi_iteration b ex g xi_opt rd st))))
      else if myid g = 0
        then Some (root_return (serial_iteration b ex g xi_opt st))
        else calc_loop b ex g xi_opt rounds flag (snd (serial_iteration b ex g xi_opt st)))"

text \<open>The function: without \<^verbatim>\<open>MPI\<close> it first sets \<^verbatim>\<open>myconf = nconf\<close> (line 97).\<close>

definition calc_forces_stiweb ::
  "build \<Rightarrow> extern \<Rightarrow> globals \<Rightarrow> addr \<Rightarrow> mpi_round list \<Rightarrow> int \<Rightarrow> state \<Rightarrow> (double \<times> state) option" where
  "calc_forces_stiweb b ex g xi_opt rounds flag st =
     calc_loop b ex g xi_opt rounds flag (if MPI b then st else st\<lparr> myconf := nconf g \<rparr>)"

subsection \<open>Notions used in the statements\<close>

text \<open>
  The views as the loops of \<^verbatim>\<open>update_stiweb_pointers\<close> leave them for a vector at
  address \<open>xi\<close>: two slots are skipped, then come eight slots for each pair column
  (six views and two skipped), four for each column of the envelope (two views and
  two skipped), and one for each triple of types.
\<close>

definition sw_layout :: "nat \<Rightarrow> nat \<Rightarrow> addr \<Rightarrow> sw_t" where
  "sw_layout pc nt xi =
     \<lparr> sw_init = 1,
       sw_A = map (\<lambda>i. xi + (2 + 8 * i)) [0..<pc],
       sw_B = map (\<lambda>i. xi + (3 + 8 * i)) [0..<pc],
       sw_p = map (\<lambda>i. xi + (4 + 8 * i)) [0..<pc],
       sw_q = map (\<lambda>i. xi + (5 + 8 * i)) [0..<pc],
       sw_delta = map (\<lambda>i. xi + (6 + 8 * i)) [0..<pc],
       sw_a1 = map (\<lambda>i. xi + (7 + 8 * i)) [0..<pc],
       sw_gamma = map (\<lambda>i. xi + (2 + 8 * pc + 4 * i)) [0..<pc],
       sw_a2 = map (\<lambda>i. xi + (3 + 8 * pc + 4 * i)) [0..<pc],
       sw_lambda = map (\<lambda>i. map (\<lambda>j. map (\<lambda>k. xi + (2 + 12 * pc + ((i * nt + j) * nt + k)))
                     [0..<nt]) [0..<nt]) [0..<nt] \<rparr>"

text \<open>The arrays of the views have the lengths the allocation block gives them.\<close>

definition sw_sized :: "nat \<Rightarrow> nat \<Rightarrow> sw_t \<Rightarrow> bool" where
  "sw_sized pc nt s \<longleftrightarrow>
     length (sw_A s) = pc \<and> length (sw_B s) = pc \<and> length (sw_p s) = pc \<and>
     length (sw_q s) = pc \<and> length (sw_delta s) = pc \<and> length (sw_a1 s) = pc \<and>
     length (sw_gamma s) = pc \<and> length (sw_a2 s) = pc \<and>
     length (sw_lambda s) = nt \<and>
     (\<forall>row \<in> set (sw_lambda s). length row = nt \<and> (\<forall>c \<in> set row. length c = nt))"

text \<open>The fields that no loop over a configuration writes.\<close>

definition same_frame :: "state \<Rightarrow> state \<Rightarrow> bool" where
  "same_frame st t \<longleftrightarrow>
     sw t = sw st \<and> mem t = mem st \<and> fcalls t = fcalls st \<and> myconf t = myconf st"

text \<open>
  The pair potential as the specification states it, for the parameters \<open>A\<close>, \<open>B\<close>,
  \<open>p\<close>, \<open>q\<close>, \<open>delta\<close>, \<open>a1\<close> and the distance \<open>r\<close>: the repulsive and attractive
  terms, the cutoff factor, the pair value and its gradient.
\<close>

definition phi_r_spec :: "real \<Rightarrow> real \<Rightarrow> real \<Rightarrow> real" where
  "phi_r_spec A p r = A * r powr (- p)"

definition phi_a_spec :: "real \<Rightarrow> real \<Rightarrow> real \<Rightarrow> real" where
  "phi_a_spec B q r = - B * r powr (- q)"

definition f_cut_spec :: "real \<Rightarrow> real \<Rightarrow> real \<Rightarrow> real" where
  "f_cut_spec delta a1 r = exp (delta / (r - a1))"

definition v2_spec :: "real \<Rightarrow> real \<Rightarrow> real \<Rightarrow> real \<Rightarrow> real \<Rightarrow> real \<Rightarrow> real \<Rightarrow> real" where
  "v2_spec A B p q delta a1 r = (phi_r_spec A p r + phi_a_spec B q r) * f_cut_spec delta a1 r"

definition v2_grad_spec :: "real \<Rightarrow> real \<Rightarrow> real \<Rightarrow> real \<Rightarrow> real \<Rightarrow> real \<Rightarrow> real \<Rightarrow> real" where
  "v2_grad_spec A B p q delta a1 r =
     - v2_spec A B p q delta a1 r * delta / (r - a1) ^ 2
     - f_cut_spec delta a1 r * (1 / r) * (p * phi_r_spec A p r + q * phi_a_spec B q r)"

text \<open>
  The pair value and the gradient of a neighbour, read through the views, with the
  halving for an atom that interacts with a copy of itself.
\<close>

definition v2_of :: "(addr \<Rightarrow> real) \<Rightarrow> sw_t \<Rightarrow> bool \<Rightarrow> neigh_t \<Rightarrow> real" where
  "v2_of m s self neigh_j =
     (let col = neigh_col neigh_j;
          v = v2_spec (m (sw_A s ! col)) (m (sw_B s ! col)) (m (sw_p s ! col)) (m (sw_q s ! col))
                (m (sw_delta s ! col)) (m (sw_a1 s ! col)) (neigh_r neigh_j)
      in if self then v * 0.5 else v)"

definition v2_grad_of :: "(addr \<Rightarrow> real) \<Rightarrow> sw_t \<Rightarrow> bool \<Rightarrow> neigh_t \<Rightarrow> real" where
  "v2_grad_of m s self neigh_j =
     (let col = neigh_col neigh_j;
          v = v2_grad_spec (m (sw_A s ! col)) (m (sw_B s ! col)) (m (sw_p s ! col)) (m (sw_q s ! col))
                (m (sw_delta s ! col)) (m (sw_a1 s ! col)) (neigh_r neigh_j)
      in if self then v * 0.5 else v)"

text \<open>
  The three-body energy of the neighbours \<open>jj < kk\<close> of an atom as the specification
  states it: \<open>lambda f_j f_k (cos + 1/3)^2\<close> when both lie within their cutoff \<open>a2\<close>,
  and nothing otherwise. The cosine is the entry of the angular cache that the
  enumeration reaches for this pair, \<open>ijk_start\<close> of \<open>jj\<close> plus \<open>kk - jj - 1\<close>.
\<close>

definition v3_spec :: "(addr \<Rightarrow> real) \<Rightarrow> sw_t \<Rightarrow> atom_t \<Rightarrow> nat \<Rightarrow> nat \<Rightarrow> real" where
  "v3_spec m s a jj kk =
     (if neigh_r (atom_neigh a ! jj) < m (sw_a2 s ! neigh_col (atom_neigh a ! jj)) \<and>
         neigh_r (atom_neigh a ! kk) < m (sw_a2 s ! neigh_col (atom_neigh a ! kk))
      then m (sw_lambda s ! atom_typ a ! neigh_typ (atom_neigh a ! jj) ! neigh_typ (atom_neigh a ! kk))
           * neigh_f (atom_neigh a ! jj) * neigh_f (atom_neigh a ! kk)
           * (angl_cos (atom_angl_part a ! (neigh_ijk_start (atom_neigh a ! jj) + (kk - jj - 1))) + 1 / 3) ^ 2
      else 0)"




text \<open>
  The symmetrised outer product of a force and a displacement as the specification
  describes the stress contributions: the diagonal components \<open>xx\<close>, \<open>yy\<close>, \<open>zz\<close>
  are plain products, and the off-diagonal components \<open>yz\<close>, \<open>zx\<close>, \<open>xy\<close> carry the
  factor 0.5.
\<close>

definition sym_outer :: "vector \<Rightarrow> vector \<Rightarrow> nat \<Rightarrow> real" where
  "sym_outer fv rv c =
     (if c = 0 then vec_x fv * vec_x rv
      else if c = 1 then vec_y fv * vec_y rv
      else if c = 2 then vec_z fv * vec_z rv
      else if c = 3 then 0.5 * (vec_y fv * vec_z rv + vec_z fv * vec_y rv)
      else if c = 4 then 0.5 * (vec_z fv * vec_x rv + vec_x fv * vec_z rv)
      else 0.5 * (vec_x fv * vec_y rv + vec_y fv * vec_x rv))"

text \<open>
  The products of a displacement and a force that the pair term uses for the six
  stress components: \<open>xx\<close>, \<open>yy\<close>, \<open>zz\<close>, \<open>xy\<close>, \<open>yz\<close>, \<open>zx\<close>.
\<close>

definition pair_products :: "vector \<Rightarrow> vector \<Rightarrow> real list" where
  "pair_products rv fv =
     [vec_x rv * vec_x fv, vec_y rv * vec_y fv, vec_z rv * vec_z fv,
      vec_x rv * vec_y fv, vec_y rv * vec_z fv, vec_z rv * vec_x fv]"

text \<open>
  The slots of the buffer that belong to configuration \<open>h\<close>: its energy, its six
  stress components when the build has them, and the force components of its
  atoms. Two buffers agree on a set of slots; two states are the same but for
  their buffers, which agree on a set of slots.
\<close>

definition owned :: "build \<Rightarrow> globals \<Rightarrow> nat \<Rightarrow> nat set" where
  "owned b g h =
     {energy_p g + h} \<union>
     (if STRESS b then {stress_p g + 6 * h + c | c. c < 6} else {}) \<union>
     {3 * (cnfstart g h + i) + c | i c. i < inconf g h \<and> c < 3}"

definition buf_agree :: "nat set \<Rightarrow> (nat \<Rightarrow> real) \<Rightarrow> (nat \<Rightarrow> real) \<Rightarrow> bool" where
  "buf_agree D f f' \<longleftrightarrow> (\<forall>x \<in> D. f x = f' x)"

definition same_but_buffer :: "nat set \<Rightarrow> state \<Rightarrow> state \<Rightarrow> bool" where
  "same_but_buffer D st st' \<longleftrightarrow>
     buf_agree D (forces st) (forces st') \<and> st' = st\<lparr> forces := forces st' \<rparr>"

subsection \<open>Concrete inputs\<close>

text \<open>
  Builds, helpers and a process without configurations, used where a statement is
  evaluated. \<open>ex_plain\<close> clamps nothing and adds no penalty; the penalty of \<open>ex_nan\<close>
  is not a number.
\<close>

definition b_mpi :: build where
  "b_mpi = \<lparr> MPI = True, STRESS = False, FWEIGHT = False, CONTRIB = False, fl = (\<lambda>v. v) \<rparr>"

definition b_serial :: build where
  "b_serial = \<lparr> MPI = False, STRESS = False, FWEIGHT = False, CONTRIB = False, fl = (\<lambda>v. v) \<rparr>"

definition ex_plain :: extern where
  "ex_plain = \<lparr> apot_check_params = (\<lambda>m a. m), apot_punish = (\<lambda>m a fs. (Fin 0, fs)) \<rparr>"

definition ex_nan :: extern where
  "ex_nan = \<lparr> apot_check_params = (\<lambda>m a. m), apot_punish = (\<lambda>m a fs. (NaN, fs)) \<rparr>"

definition rd_plain :: mpi_round where
  "rd_plain = \<lparr> bcast_flag = 0, bcast_xi = (\<lambda>i. 0), reduce_others = Fin 0, gathered = (\<lambda>fs. fs) \<rparr>"

definition g_none :: globals where
  "g_none = \<lparr> myid = 0, nconf = 0, firstconf = 0, firstatom = 0, paircol = 1, ntypes = 1,
               ndimtot = 15, energy_p = 0, stress_p = 0, inconf = (\<lambda>h. 0), cnfstart = (\<lambda>h. 0),
               conf_uf = (\<lambda>h. 0), conf_us = (\<lambda>h. 0), conf_weight = (\<lambda>h. 1),
               conf_vol = (\<lambda>h. 1), force_0 = (\<lambda>k. 0), eweight = 1, sweight = 1,
               FORCE_EPS = 1 \<rparr>"

definition st_none :: "sw_t \<Rightarrow> state" where
  "st_none s = \<lparr> mem = (\<lambda>a. 0), forces = (\<lambda>k. 0), sw = s, conf_atoms = [], fcalls = 0,
                 myconf = 0, tmpsum = 0, atom = 0, last_v2_grad = 0 \<rparr>"

text \<open>
  A neighbour at distance \<open>d\<close> along the first axis, which is atom \<open>nr\<close>, and an atom
  with the reference force magnitude \<open>w\<close> and the neighbours \<open>ns\<close>.
\<close>

definition neigh_ex :: "real \<Rightarrow> nat \<Rightarrow> neigh_t" where
  "neigh_ex d nr =
     \<lparr> neigh_typ = 0, neigh_nr = nr, neigh_r = d, neigh_inv_r = 1 / d,
       neigh_dist = \<lparr> vec_x = 1, vec_y = 0, vec_z = 0 \<rparr>,
       neigh_rdist = \<lparr> vec_x = d, vec_y = 0, vec_z = 0 \<rparr>,
       neigh_col = 0, neigh_f = 1, neigh_df = 0, neigh_ijk_start = 0 \<rparr>"

definition atom_ex :: "real \<Rightarrow> neigh_t list \<Rightarrow> atom_t" where
  "atom_ex w ns =
     \<lparr> atom_typ = 0, atom_absforce = w, atom_contrib = 1, atom_neigh = ns,
       atom_angl_part = [\<lparr> angl_cos = 0 \<rparr>, \<lparr> angl_cos = 0 \<rparr>, \<lparr> angl_cos = 0 \<rparr>] \<rparr>"

text \<open>
  One configuration of three atoms with force fitting on: nine force slots, the
  energy in slot 9, the stress in slots 10 to 15. All parameters are 2.
\<close>

definition g_one :: globals where
  "g_one = \<lparr> myid = 0, nconf = 1, firstconf = 0, firstatom = 0, paircol = 1, ntypes = 1,
              ndimtot = 15, energy_p = 9, stress_p = 10, inconf = (\<lambda>h. 3), cnfstart = (\<lambda>h. 0),
              conf_uf = (\<lambda>h. 1), conf_us = (\<lambda>h. 1), conf_weight = (\<lambda>h. 1),
              conf_vol = (\<lambda>h. 1), force_0 = (\<lambda>k. 4), eweight = 1, sweight = 1,
              FORCE_EPS = 1 \<rparr>"

definition m_two :: "addr \<Rightarrow> real" where
  "m_two a = 2"

text \<open>The views for one pair column, one type and a vector at address 100.\<close>

definition sw_one :: sw_t where
  "sw_one = sw_layout 1 1 100"

text \<open>
  A state for \<open>g_one\<close>: three atoms with the reference force magnitudes 1, 1 and 3
  and no neighbours, an empty buffer, and the views of \<open>sw_one\<close> on parameters that
  are all 2.
\<close>

definition st_one :: state where
  "st_one = \<lparr> mem = m_two, forces = (\<lambda>k. 0), sw = sw_one,
               conf_atoms = [atom_ex 1 [], atom_ex 1 [], atom_ex 3 []],
               fcalls = 0, myconf = 1, tmpsum = 0, atom = 0, last_v2_grad = 0 \<rparr>"

text \<open>The build with the adaptive weighting of the forces.\<close>

definition b_fweight :: build where
  "b_fweight = \<lparr> MPI = False, STRESS = False, FWEIGHT = True, CONTRIB = False, fl = (\<lambda>v. v) \<rparr>"

text \<open>The build with stress fitting.\<close>

definition b_stress :: build where
  "b_stress = \<lparr> MPI = False, STRESS = True, FWEIGHT = False, CONTRIB = False, fl = (\<lambda>v. v) \<rparr>"


text \<open>
  Parameters for \<open>sw_one\<close> with \<open>A = 2\<close> and \<open>a1 = 2\<close> (addresses 102 and 107) and every
  other one 1; a neighbour at distance 1 lies within the pair cutoff.
\<close>

definition m_pair :: "addr \<Rightarrow> real" where
  "m_pair a = (if a = 102 \<or> a = 107 then 2 else 1)"



lemma for_loop_fold: "for_loop i n body s = fold body [i..<n] s"
proof (induction i n body s rule: for_loop.induct)
  case (1 i n body s)
  show ?case
  proof (cases "i < n")
    case True
    then show ?thesis
      using 1 by (subst for_loop.simps) (simp add: upt_conv_Cons)
  next
    case False
    then show ?thesis by (subst for_loop.simps) simp
  qed
qed

lemma for_loop_empty: "n \<le> i \<Longrightarrow> for_loop i n body s = s"
  by (simp add: for_loop_fold)

lemma for_loop_Suc: "i \<le> n \<Longrightarrow> for_loop i (Suc n) body s = body n (for_loop i n body s)"
  by (simp add: for_loop_fold)

lemma for_loop_inv:
  assumes "P i s" and "\<And>j t. i \<le> j \<Longrightarrow> j < n \<Longrightarrow> P j t \<Longrightarrow> P (Suc j) (body j t)" and "i \<le> n"
  shows "P n (for_loop i n body s)"
  using assms(3,1,2)
proof (induction n rule: dec_induct)
  case base
  then show ?case by (simp add: for_loop_empty)
next
  case (step n)
  then show ?case by (simp add: for_loop_Suc)
qed

lemma set_pair_loop:
  assumes "n \<le> length (sw_A s)" "n \<le> length (sw_B s)" "n \<le> length (sw_p s)"
    "n \<le> length (sw_q s)" "n \<le> length (sw_delta s)" "n \<le> length (sw_a1 s)"
  shows "for_loop 0 n (set_pair xi) (idx, s) =
     (idx + 8 * n,
      s\<lparr> sw_A := map (\<lambda>i. xi + (idx + 8 * i)) [0..<n] @ drop n (sw_A s),
         sw_B := map (\<lambda>i. xi + (idx + 8 * i + 1)) [0..<n] @ drop n (sw_B s),
         sw_p := map (\<lambda>i. xi + (idx + 8 * i + 2)) [0..<n] @ drop n (sw_p s),
         sw_q := map (\<lambda>i. xi + (idx + 8 * i + 3)) [0..<n] @ drop n (sw_q s),
         sw_delta := map (\<lambda>i. xi + (idx + 8 * i + 4)) [0..<n] @ drop n (sw_delta s),
         sw_a1 := map (\<lambda>i. xi + (idx + 8 * i + 5)) [0..<n] @ drop n (sw_a1 s) \<rparr>)"
  using assms
proof (induction n)
  case 0
  then show ?case by (simp add: for_loop_empty)
next
  case (Suc n)
  have upd: "\<And>f xs v. n < length xs \<Longrightarrow>
      (map f [0..<n] @ drop n xs)[n := v] = map f [0..<n] @ [v] @ drop (Suc n) xs" for f :: "nat \<Rightarrow> nat"
    by (simp add: list_update_append Cons_nth_drop_Suc[symmetric])
  from Suc show ?case
    by (simp add: for_loop_Suc set_pair_def upd add_ac)
qed


lemma set_envelope_loop:
  assumes "n \<le> length (sw_gamma s)" "n \<le> length (sw_a2 s)"
  shows "for_loop 0 n (set_envelope xi) (idx, s) =
     (idx + 4 * n,
      s\<lparr> sw_gamma := map (\<lambda>i. xi + (idx + 4 * i)) [0..<n] @ drop n (sw_gamma s),
         sw_a2 := map (\<lambda>i. xi + (idx + 4 * i + 1)) [0..<n] @ drop n (sw_a2 s) \<rparr>)"
  using assms
proof (induction n)
  case 0
  then show ?case by (simp add: for_loop_empty)
next
  case (Suc n)
  have upd: "\<And>f xs v. n < length xs \<Longrightarrow>
      (map f [0..<n] @ drop n xs)[n := v] = map f [0..<n] @ [v] @ drop (Suc n) xs" for f :: "nat \<Rightarrow> nat"
    by (simp add: list_update_append Cons_nth_drop_Suc[symmetric])
  from Suc show ?case
    by (simp add: for_loop_Suc set_envelope_def upd add_ac)
qed

lemma set_lambda_loop_k:
  assumes "i < length (sw_lambda s)" "j < length (sw_lambda s ! i)" "n \<le> length (sw_lambda s ! i ! j)"
  shows "for_loop 0 n (\<lambda>k. set_lambda xi i j k) (idx, s) =
     (idx + n,
      s\<lparr> sw_lambda := (sw_lambda s)[i := (sw_lambda s ! i)[j :=
            map (\<lambda>k. xi + (idx + k)) [0..<n] @ drop n (sw_lambda s ! i ! j)]] \<rparr>)"
  using assms
proof (induction n)
  case 0
  then show ?case by (simp add: for_loop_empty)
next
  case (Suc n)
  have upd: "\<And>f xs v. n < length xs \<Longrightarrow>
      (map f [0..<n] @ drop n xs)[n := v] = map f [0..<n] @ [v] @ drop (Suc n) xs" for f :: "nat \<Rightarrow> nat"
    by (simp add: list_update_append Cons_nth_drop_Suc[symmetric])
  from Suc show ?case
    by (simp add: for_loop_Suc set_lambda_def upd add_ac)
qed

lemma set_lambda_loop_j:
  assumes "i < length (sw_lambda s)" "n \<le> length (sw_lambda s ! i)"
    "\<forall>j<n. length (sw_lambda s ! i ! j) = nt"
  shows "for_loop 0 n (\<lambda>j. for_loop 0 nt (\<lambda>k. set_lambda xi i j k)) (idx, s) =
     (idx + n * nt,
      s\<lparr> sw_lambda := (sw_lambda s)[i :=
            map (\<lambda>j. map (\<lambda>k. xi + (idx + j * nt + k)) [0..<nt]) [0..<n] @ drop n (sw_lambda s ! i)] \<rparr>)"
  using assms
proof (induction n)
  case 0
  then show ?case by (simp add: for_loop_empty)
next
  case (Suc n)
  have upd: "\<And>f xs v. n < length xs \<Longrightarrow>
      (map f [0..<n] @ drop n xs)[n := v] = map f [0..<n] @ [v] @ drop (Suc n) xs" for f :: "nat \<Rightarrow> nat list"
    by (simp add: list_update_append Cons_nth_drop_Suc[symmetric])
  from Suc show ?case
    by (simp add: for_loop_Suc set_lambda_loop_k upd nth_append add_ac)
qed

lemma set_lambda_loop_i:
  assumes "n \<le> length (sw_lambda s)"
    "\<forall>i<n. length (sw_lambda s ! i) = nt \<and> (\<forall>j<nt. length (sw_lambda s ! i ! j) = nt)"
  shows "for_loop 0 n (\<lambda>i. for_loop 0 nt (\<lambda>j. for_loop 0 nt (\<lambda>k. set_lambda xi i j k))) (idx, s) =
     (idx + n * nt * nt,
      s\<lparr> sw_lambda :=
            map (\<lambda>i. map (\<lambda>j. map (\<lambda>k. xi + (idx + (i * nt + j) * nt + k)) [0..<nt]) [0..<nt]) [0..<n]
            @ drop n (sw_lambda s) \<rparr>)"
  using assms
proof (induction n)
  case 0
  then show ?case by (simp add: for_loop_empty)
next
  case (Suc n)
  have upd: "\<And>f xs v. n < length xs \<Longrightarrow>
      (map f [0..<n] @ drop n xs)[n := v] = map f [0..<n] @ [v] @ drop (Suc n) xs" for f :: "nat \<Rightarrow> nat list list"
    by (simp add: list_update_append Cons_nth_drop_Suc[symmetric])
  from Suc show ?case
    by (simp add: for_loop_Suc set_lambda_loop_j upd nth_append add_ac algebra_simps)
qed

lemma sw_sized_alloc: "sw_sized pc nt (sw_alloc pc nt s)"
  by (simp add: sw_sized_def sw_alloc_def)

lemma rebuild_sized:
  assumes "sw_sized pc nt s"
  shows "snd (for_loop 0 nt
                  (\<lambda>i. for_loop 0 nt (\<lambda>j. for_loop 0 nt (\<lambda>k. set_lambda xi i j k)))
                  (for_loop 0 pc (set_envelope xi)
                     (for_loop 0 pc (set_pair xi) (2, s))))
         = (sw_layout pc nt xi)\<lparr> sw_init := sw_init s \<rparr>"
proof -
  from assms have len: "length (sw_A s) = pc" "length (sw_B s) = pc" "length (sw_p s) = pc"
     "length (sw_q s) = pc" "length (sw_delta s) = pc" "length (sw_a1 s) = pc"
     "length (sw_gamma s) = pc" "length (sw_a2 s) = pc" "length (sw_lambda s) = nt"
    and rows: "\<forall>i<nt. length (sw_lambda s ! i) = nt \<and> (\<forall>j<nt. length (sw_lambda s ! i ! j) = nt)"
    by (simp_all add: sw_sized_def) (metis nth_mem)
  show ?thesis
    apply (subst set_pair_loop; (simp add: len)?)
    apply (subst set_envelope_loop; (simp add: len)?)
    apply (subst set_lambda_loop_i; (simp add: len rows)?)
    apply (simp add: sw_layout_def len add_ac mult.commute)
    done
qed

lemma update_fresh:
  assumes "0 < pc" "sw_init s = 0"
  shows "update_stiweb_pointers pc nt xi s = sw_layout pc nt xi"
proof -
  have "sw_A (sw_alloc pc nt s) ! 0 \<noteq> xi + 2"
    using assms by (simp add: sw_alloc_def NULL_def)
  then show ?thesis
    using assms rebuild_sized[OF sw_sized_alloc, where xi = xi and pc = pc and nt = nt and s1 = s]
    by (simp add: update_stiweb_pointers_def) (simp add: sw_alloc_def sw_layout_def)
qed

lemma update_moved:
  assumes "sw_init s \<noteq> 0" "sw_sized pc nt s" "sw_A s ! 0 \<noteq> xi + 2"
  shows "update_stiweb_pointers pc nt xi s = (sw_layout pc nt xi)\<lparr> sw_init := sw_init s \<rparr>"
  using assms rebuild_sized[OF assms(2), where xi = xi]
  by (simp add: update_stiweb_pointers_def)

lemma update_same:
  assumes "sw_init s \<noteq> 0" "sw_A s ! 0 = xi + 2"
  shows "update_stiweb_pointers pc nt xi s = s"
  using assms by (simp add: update_stiweb_pointers_def)

subsection \<open>The layout of the parameter vector\<close>

text \<open>
  C7 (as amended). When \<^verbatim>\<open>update_stiweb_pointers\<close> sets the views (on first use, or
  when the first \<open>A\<close> view does not point at \<open>xi + 2\<close>), the layout starts with two
  slots that no view points to: for pair column \<open>i\<close> the views \<open>A, B, p, q, delta, a1\<close>
  point at the slots \<open>2 + 8 i, ..., 7 + 8 i\<close>, the views \<open>gamma, a2\<close> at
  \<open>2 + 8 paircol + 4 i\<close> and the next one, and \<open>lambda[i][j][k]\<close> at
  \<open>2 + 12 paircol + (i ntypes + j) ntypes + k\<close>. So the two slots of each group that
  no view covers come before its views, and the first \<open>A\<close> view is the third slot
  of the vector, not the first.
\<close>

theorem update_stiweb_pointers_layout:
  assumes "0 < pc"
    and "sw_init s0 = 0 \<or> (sw_sized pc nt s0 \<and> sw_A s0 ! 0 \<noteq> xi + 2)"
  shows "(\<forall>i<pc. sw_A (update_stiweb_pointers pc nt xi s0) ! i = xi + (2 + 8 * i) \<and>
                 sw_B (update_stiweb_pointers pc nt xi s0) ! i = xi + (3 + 8 * i) \<and>
                 sw_p (update_stiweb_pointers pc nt xi s0) ! i = xi + (4 + 8 * i) \<and>
                 sw_q (update_stiweb_pointers pc nt xi s0) ! i = xi + (5 + 8 * i) \<and>
                 sw_delta (update_stiweb_pointers pc nt xi s0) ! i = xi + (6 + 8 * i) \<and>
                 sw_a1 (update_stiweb_pointers pc nt xi s0) ! i = xi + (7 + 8 * i) \<and>
                 sw_gamma (update_stiweb_pointers pc nt xi s0) ! i = xi + (2 + 8 * pc + 4 * i) \<and>
                 sw_a2 (update_stiweb_pointers pc nt xi s0) ! i = xi + (3 + 8 * pc + 4 * i)) \<and>
         (\<forall>i<nt. \<forall>j<nt. \<forall>k<nt.
            sw_lambda (update_stiweb_pointers pc nt xi s0) ! i ! j ! k
              = xi + (2 + 12 * pc + ((i * nt + j) * nt + k)))"
proof (cases "sw_init s0 = 0")
  case True
  with assms(1) have "update_stiweb_pointers pc nt xi s0 = sw_layout pc nt xi"
    by (rule update_fresh)
  then show ?thesis by (simp add: sw_layout_def)
next
  case False
  with assms(2) have "update_stiweb_pointers pc nt xi s0 = (sw_layout pc nt xi)\<lparr> sw_init := sw_init s0 \<rparr>"
    by (simp add: update_moved)
  then show ?thesis by (simp add: sw_layout_def)
qed

theorem update_stiweb_pointers_layout_witness:
  "0 < (3::nat) \<and> sw_init sw_zero = 0 \<and>
   sw_A (update_stiweb_pointers 3 2 100 sw_zero) ! 0 = 102 \<and>
   sw_B (update_stiweb_pointers 3 2 100 sw_zero) ! 1 = 111 \<and>
   sw_a1 (update_stiweb_pointers 3 2 100 sw_zero) ! 2 = 123 \<and>
   sw_gamma (update_stiweb_pointers 3 2 100 sw_zero) ! 0 = 126 \<and>
   sw_a2 (update_stiweb_pointers 3 2 100 sw_zero) ! 2 = 135 \<and>
   sw_lambda (update_stiweb_pointers 3 2 100 sw_zero) ! 0 ! 0 ! 0 = 138 \<and>
   sw_lambda (update_stiweb_pointers 3 2 100 sw_zero) ! 1 ! 0 ! 1 = 143"
  using update_stiweb_pointers_layout [of 3 sw_zero 2 100]
  by (simp add: sw_zero_def)

text \<open>
  C7 as stated fails: for one pair column and a vector at address 100 the first
  \<open>A\<close> view is address 102, not the first slot 100.
\<close>

theorem first_A_view_not_first_slot:
  "sw_A (update_stiweb_pointers 1 1 100 sw_zero) ! 0 = 102 \<and>
   sw_A (update_stiweb_pointers 1 1 100 sw_zero) ! 0 \<noteq> 100 + 0"
  by (simp add: update_fresh sw_zero_def sw_layout_def)

lemma atom_pass_frame:
  "sw (atom_pass b g h i st) = sw st \<and> mem (atom_pass b g h i st) = mem st \<and>
   fcalls (atom_pass b g h i st) = fcalls st \<and> myconf (atom_pass b g h i st) = myconf st \<and>
   tmpsum (atom_pass b g h i st) = tmpsum st"
  by (simp add: atom_pass_def Let_def split: prod.splits)

lemma sum_force_frame:
  "sw (sum_force b g h i st) = sw st \<and> mem (sum_force b g h i st) = mem st \<and>
   fcalls (sum_force b g h i st) = fcalls st \<and> myconf (sum_force b g h i st) = myconf st \<and>
   conf_atoms (sum_force b g h i st) = conf_atoms st \<and> atom (sum_force b g h i st) = atom st"
  by (simp add: sum_force_def Let_def)

lemma energy_contrib_frame:
  "sw (energy_contrib g h st) = sw st \<and> mem (energy_contrib g h st) = mem st \<and>
   fcalls (energy_contrib g h st) = fcalls st \<and> myconf (energy_contrib g h st) = myconf st \<and>
   conf_atoms (energy_contrib g h st) = conf_atoms st \<and> atom (energy_contrib g h st) = atom st"
  by (simp add: energy_contrib_def Let_def)

lemma stress_contrib_frame:
  "sw (stress_contrib g h i st) = sw st \<and> mem (stress_contrib g h i st) = mem st \<and>
   fcalls (stress_contrib g h i st) = fcalls st \<and> myconf (stress_contrib g h i st) = myconf st \<and>
   conf_atoms (stress_contrib g h i st) = conf_atoms st \<and> atom (stress_contrib g h i st) = atom st"
  by (simp add: stress_contrib_def Let_def)

lemma same_frame_loop:
  assumes "\<And>j t. same_frame t (body j t)"
  shows "same_frame st (for_loop i n body st)"
proof (cases "i \<le> n")
  case True
  have "same_frame st st" by (simp add: same_frame_def)
  then show ?thesis
    using assms by (intro for_loop_inv[where P = "\<lambda>_. same_frame st"]) (auto simp: same_frame_def True)
next
  case False
  then show ?thesis by (simp add: for_loop_empty same_frame_def)
qed

lemma same_frame_trans: "same_frame s t \<Longrightarrow> same_frame t u \<Longrightarrow> same_frame s u"
  by (simp add: same_frame_def)

lemma conf_step_frame: "same_frame st (conf_step b g h st)"
proof -
  have r: "same_frame t (conf_reset b g h t)" for t
  proof -
    let ?t1 = "t\<lparr> forces := (forces t)(energy_p g + h := 0) \<rparr>"
    let ?t2 = "if STRESS b
                 then for_loop 0 6 (\<lambda>i t. t\<lparr> forces := (forces t)(stress_p g + 6 * h + i := 0) \<rparr>) ?t1
                 else ?t1"
    have 1: "same_frame t ?t1" by (simp add: same_frame_def)
    have "same_frame ?t1 (for_loop 0 6 (\<lambda>i t. t\<lparr> forces := (forces t)(stress_p g + 6 * h + i := 0) \<rparr>) ?t1)"
      by (rule same_frame_loop) (simp add: same_frame_def)
    moreover have "same_frame ?t1 ?t1" by (simp add: same_frame_def)
    ultimately have 2: "same_frame ?t1 ?t2" by simp
    have 3: "same_frame ?t2 (for_loop 0 (inconf g h) (\<lambda>i t. t\<lparr> forces := reset_force g h i (forces t) \<rparr>) ?t2)"
      by (rule same_frame_loop) (simp add: same_frame_def)
    show ?thesis
      unfolding conf_reset_def Let_def
      by (rule same_frame_trans[OF same_frame_trans[OF 1 2] 3])
  qed
  have p: "same_frame t (conf_passes b g h t)" for t
    unfolding conf_passes_def
    by (rule same_frame_trans[OF r same_frame_loop]) (simp add: same_frame_def atom_pass_frame)
  have f: "same_frame t (conf_forces b g h t)" for t
  proof (cases "conf_uf g (h - firstconf g) \<noteq> 0")
    case True
    have "same_frame t (for_loop 0 (inconf g h) (sum_force b g h) t)"
      by (rule same_frame_loop) (simp add: same_frame_def sum_force_frame)
    with True show ?thesis by (simp add: conf_forces_def)
  next
    case False
    then show ?thesis by (simp add: conf_forces_def same_frame_def)
  qed
  have e: "same_frame t (energy_contrib g h t)" for t
    by (simp add: same_frame_def energy_contrib_frame)
  have s: "same_frame t (conf_stress b g h t)" for t
  proof -
    have "same_frame t (for_loop 0 6 (stress_contrib g h) t)"
      by (rule same_frame_loop) (simp add: same_frame_def stress_contrib_frame)
    moreover have "same_frame t t" by (simp add: same_frame_def)
    ultimately show ?thesis by (simp add: conf_stress_def)
  qed
  show ?thesis
    unfolding conf_step_def
    by (rule same_frame_trans[OF same_frame_trans[OF same_frame_trans[OF p f] e] s])
qed

lemma evaluate_frame:
  "sw (evaluate b g xi st) = update_stiweb_pointers (paircol g) (ntypes g) xi (sw st) \<and>
   mem (evaluate b g xi st) = mem st \<and> fcalls (evaluate b g xi st) = fcalls st \<and>
   myconf (evaluate b g xi st) = myconf st"
proof -
  have "same_frame (st\<lparr> sw := update_stiweb_pointers (paircol g) (ntypes g) xi (sw st) \<rparr>)
          (evaluate b g xi st)"
    unfolding evaluate_def Let_def
    by (rule same_frame_loop) (rule conf_step_frame)
  then show ?thesis by (simp add: same_frame_def)
qed

subsection \<open>The passes of the evaluation loop\<close>

lemma receive_frame:
  "sw (receive ex g xi rd st) = sw st \<and> fcalls (receive ex g xi rd st) = fcalls st \<and>
   myconf (receive ex g xi rd st) = myconf st"
  by (simp add: receive_def)

lemma local_sum_frame:
  "sw (snd (local_sum ex g xi st)) = sw st \<and> mem (snd (local_sum ex g xi st)) = mem st \<and>
   fcalls (snd (local_sum ex g xi st)) = fcalls st \<and> myconf (snd (local_sum ex g xi st)) = myconf st"
  by (simp add: local_sum_def)

lemma reduce_gather_frame:
  "sw (snd (reduce_gather g rd ts)) = sw (snd ts) \<and> mem (snd (reduce_gather g rd ts)) = mem (snd ts) \<and>
   fcalls (snd (reduce_gather g rd ts)) = fcalls (snd ts) \<and>
   myconf (snd (reduce_gather g rd ts)) = myconf (snd ts)"
  by (simp add: reduce_gather_def)

lemma mpi_iteration_frame:
  "sw (snd (mpi_iteration b ex g xi rd st))
     = update_stiweb_pointers (paircol g) (ntypes g) xi (sw st) \<and>
   fcalls (snd (mpi_iteration b ex g xi rd st)) = fcalls st \<and>
   myconf (snd (mpi_iteration b ex g xi rd st)) = myconf st"
  by (simp add: mpi_iteration_def reduce_gather_frame local_sum_frame evaluate_frame receive_frame)

lemma serial_iteration_frame:
  "sw (snd (serial_iteration b ex g xi st))
     = update_stiweb_pointers (paircol g) (ntypes g) xi (sw st) \<and>
   mem (snd (serial_iteration b ex g xi st)) = apot_check_params ex (mem st) xi \<and>
   fcalls (snd (serial_iteration b ex g xi st)) = fcalls st \<and>
   myconf (snd (serial_iteration b ex g xi st)) = myconf st"
  by (simp add: serial_iteration_def local_sum_frame evaluate_frame)

lemma calc_loop_root_mpi:
  assumes "MPI b" "myid g = 0" "flag \<noteq> 1"
  shows "calc_loop b ex g xi (rd # rest) flag st = Some (root_return (mpi_iteration b ex g xi rd st))"
  using assms by (subst calc_loop.simps) simp

lemma calc_loop_root_serial:
  assumes "\<not> MPI b" "myid g = 0"
  shows "calc_loop b ex g xi rounds flag st = Some (root_return (serial_iteration b ex g xi st))"
  using assms by (subst calc_loop.simps) simp

lemma calc_loop_worker_step:
  assumes "MPI b" "myid g \<noteq> 0" "bcast_flag rd \<noteq> 1"
  shows "calc_loop b ex g xi (rd # rest) flag st
           = calc_loop b ex g xi rest (bcast_flag rd) (snd (mpi_iteration b ex g xi rd st))"
  using assms by (subst calc_loop.simps) simp

lemma calc_loop_blocked:
  assumes "MPI b"
  shows "calc_loop b ex g xi [] flag st = None"
  using assms by (subst calc_loop.simps) simp

lemma calc_loop_worker_flag:
  assumes "MPI b" "myid g \<noteq> 0"
  shows "calc_loop b ex g xi rounds flag st = calc_loop b ex g xi rounds flag' st"
proof -
  have "calc_loop b ex g xi rounds f st =
          (case rounds of [] \<Rightarrow> None
           | rd # rest \<Rightarrow>
               if 1 = bcast_flag rd then Some (Fin (- 1), st\<lparr> tmpsum := 0 \<rparr>)
               else calc_loop b ex g xi rest (bcast_flag rd) (snd (mpi_iteration b ex g xi rd st)))" for f
    using assms by (subst calc_loop.simps) (simp split: list.splits)
  then show ?thesis by simp
qed

lemma calc_loop_worker_value:
  assumes "MPI b" "myid g \<noteq> 0" "calc_loop b ex g xi rounds flag st = Some (v, st')"
  shows "v = Fin (- 1)"
  using assms(3)
proof (induction rounds arbitrary: flag st)
  case Nil
  then show ?case using assms(1) by (simp add: calc_loop_blocked)
next
  case (Cons rd rest)
  show ?case
  proof (cases "bcast_flag rd = 1")
    case True
    with Cons.prems assms(1,2) show ?thesis
      by (subst (asm) calc_loop.simps) simp
  next
    case False
    with Cons.prems assms(1,2)
    have "calc_loop b ex g xi rest (bcast_flag rd) (snd (mpi_iteration b ex g xi rd st)) = Some (v, st')"
      by (simp add: calc_loop_worker_step)
    then show ?thesis by (rule Cons.IH)
  qed
qed

lemma update_cases:
  assumes "0 < pc" "sw_init s \<noteq> 0 \<longrightarrow> sw_sized pc nt s"
  shows "update_stiweb_pointers pc nt xi s =
           (if sw_init s = 0 then sw_layout pc nt xi
            else if sw_A s ! 0 = xi + 2 then s
            else (sw_layout pc nt xi)\<lparr> sw_init := sw_init s \<rparr>)"
  using assms by (simp add: update_fresh update_same update_moved)

lemma evaluate_none: "myconf st = 0 \<Longrightarrow>
  evaluate b g xi st = st\<lparr> sw := update_stiweb_pointers (paircol g) (ntypes g) xi (sw st) \<rparr>"
  by (simp add: evaluate_def for_loop_empty)



subsection \<open>The control code\<close>



lemma root_return_eq:
  "root_return ts = (if isnan (fst ts) then Fin (10 ^ 31) else fst ts,
                     (snd ts)\<lparr> fcalls := fcalls (snd ts) + 1 \<rparr>)"
  by (simp add: root_return_def)

lemma mpi_iteration_sum:
  assumes "myid g = 0"
  shows "fst (mpi_iteration b ex g xi rd st) =
           dadd (dadd (Fin (tmpsum (evaluate b g xi (receive ex g xi rd (st\<lparr> tmpsum := 0 \<rparr>)))))
                      (fst (apot_punish ex (mem (evaluate b g xi (receive ex g xi rd (st\<lparr> tmpsum := 0 \<rparr>))))
                              xi (forces (evaluate b g xi (receive ex g xi rd (st\<lparr> tmpsum := 0 \<rparr>)))))))
                (reduce_others rd)"
  using assms by (simp add: mpi_iteration_def reduce_gather_def local_sum_def)

text \<open>
  C9. On an evaluating call (with \<^verbatim>\<open>MPI\<close>: the flag is not 1) the root, and only
  the root, returns: the sentinel \<^verbatim>\<open>10e30\<close> (that is \<open>10^31\<close>) when the reduced sum is
  not a number, and the reduced sum otherwise; the reduced sum is the root's local
  sum with its penalty plus what the other ranks contribute. A rank other than
  the root does not return from an evaluating pass: it goes on with the next
  round, and waits without returning when there is none. When it does return, on
  flag 1, its value is \<open>-1.0\<close> and never an objective. Without \<^verbatim>\<open>MPI\<close> the one process
  is the root and returns in the same way.
\<close>

theorem root_returns_objective:
  assumes "MPI b \<longrightarrow> flag \<noteq> 1"
  shows "(myid g = 0 \<and> MPI b \<longrightarrow>
            calc_forces_stiweb b ex g xi_opt (rd # rest) flag st =
              Some (if isnan (fst (mpi_iteration b ex g xi_opt rd st)) then Fin (10 ^ 31)
                    else fst (mpi_iteration b ex g xi_opt rd st),
                    (snd (mpi_iteration b ex g xi_opt rd st))\<lparr> fcalls := fcalls st + 1 \<rparr>) \<and>
            fst (mpi_iteration b ex g xi_opt rd st) =
              dadd (dadd (Fin (tmpsum (evaluate b g xi_opt (receive ex g xi_opt rd (st\<lparr> tmpsum := 0 \<rparr>)))))
                         (fst (apot_punish ex
                                 (mem (evaluate b g xi_opt (receive ex g xi_opt rd (st\<lparr> tmpsum := 0 \<rparr>))))
                                 xi_opt
                                 (forces (evaluate b g xi_opt (receive ex g xi_opt rd (st\<lparr> tmpsum := 0 \<rparr>)))))))
                   (reduce_others rd)) \<and>
         (myid g = 0 \<and> \<not> MPI b \<longrightarrow>
            calc_forces_stiweb b ex g xi_opt rounds flag st =
              Some (if isnan (fst (serial_iteration b ex g xi_opt (st\<lparr> myconf := nconf g \<rparr>)))
                    then Fin (10 ^ 31)
                    else fst (serial_iteration b ex g xi_opt (st\<lparr> myconf := nconf g \<rparr>)),
                    (snd (serial_iteration b ex g xi_opt (st\<lparr> myconf := nconf g \<rparr>)))
                      \<lparr> fcalls := fcalls st + 1 \<rparr>)) \<and>
         (myid g \<noteq> 0 \<and> MPI b \<and> bcast_flag rd \<noteq> 1 \<longrightarrow>
            calc_forces_stiweb b ex g xi_opt (rd # rest) flag st =
              calc_forces_stiweb b ex g xi_opt rest (bcast_flag rd)
                (snd (mpi_iteration b ex g xi_opt rd st)) \<and>
            calc_forces_stiweb b ex g xi_opt [rd] flag st = None) \<and>
         (myid g \<noteq> 0 \<and> MPI b \<longrightarrow>
            (\<forall>v st'. calc_forces_stiweb b ex g xi_opt rounds flag st = Some (v, st')
                \<longrightarrow> v = Fin (- 1)))"
proof (intro conjI impI allI)
  assume a: "myid g = 0 \<and> MPI b"
  with assms show "calc_forces_stiweb b ex g xi_opt (rd # rest) flag st =
              Some (if isnan (fst (mpi_iteration b ex g xi_opt rd st)) then Fin (10 ^ 31)
                    else fst (mpi_iteration b ex g xi_opt rd st),
                    (snd (mpi_iteration b ex g xi_opt rd st))\<lparr> fcalls := fcalls st + 1 \<rparr>)"
    by (simp add: calc_forces_stiweb_def calc_loop_root_mpi root_return_eq mpi_iteration_frame)
  from a show "fst (mpi_iteration b ex g xi_opt rd st) =
              dadd (dadd (Fin (tmpsum (evaluate b g xi_opt (receive ex g xi_opt rd (st\<lparr> tmpsum := 0 \<rparr>)))))
                         (fst (apot_punish ex
                                 (mem (evaluate b g xi_opt (receive ex g xi_opt rd (st\<lparr> tmpsum := 0 \<rparr>))))
                                 xi_opt
                                 (forces (evaluate b g xi_opt (receive ex g xi_opt rd (st\<lparr> tmpsum := 0 \<rparr>)))))))
                   (reduce_others rd)"
    by (simp add: mpi_iteration_sum)
next
  assume a: "myid g = 0 \<and> \<not> MPI b"
  then show "calc_forces_stiweb b ex g xi_opt rounds flag st =
              Some (if isnan (fst (serial_iteration b ex g xi_opt (st\<lparr> myconf := nconf g \<rparr>)))
                    then Fin (10 ^ 31)
                    else fst (serial_iteration b ex g xi_opt (st\<lparr> myconf := nconf g \<rparr>)),
                    (snd (serial_iteration b ex g xi_opt (st\<lparr> myconf := nconf g \<rparr>)))
                      \<lparr> fcalls := fcalls st + 1 \<rparr>)"
    by (simp add: calc_forces_stiweb_def calc_loop_root_serial root_return_eq serial_iteration_frame)
next
  assume a: "myid g \<noteq> 0 \<and> MPI b \<and> bcast_flag rd \<noteq> 1"
  then show "calc_forces_stiweb b ex g xi_opt (rd # rest) flag st =
              calc_forces_stiweb b ex g xi_opt rest (bcast_flag rd)
                (snd (mpi_iteration b ex g xi_opt rd st))"
    by (simp add: calc_forces_stiweb_def calc_loop_worker_step)
  from a show "calc_forces_stiweb b ex g xi_opt [rd] flag st = None"
    by (simp add: calc_forces_stiweb_def calc_loop_worker_step calc_loop_blocked)
next
  fix v st'
  assume a: "myid g \<noteq> 0 \<and> MPI b"
    and r: "calc_forces_stiweb b ex g xi_opt rounds flag st = Some (v, st')"
  from a r have "calc_loop b ex g xi_opt rounds flag st = Some (v, st')"
    by (simp add: calc_forces_stiweb_def)
  with a show "v = Fin (- 1)"
    using calc_loop_worker_value by blast
qed

theorem root_returns_objective_witness:
  "(0::int) \<noteq> 1 \<and> myid g_none = 0 \<and> MPI b_mpi \<and>
   myid (g_none\<lparr> myid := 1 \<rparr>) \<noteq> 0 \<and> bcast_flag rd_plain \<noteq> 1 \<and>
   fst (the (calc_forces_stiweb b_mpi ex_nan g_none 100 [rd_plain] 0 (st_none sw_zero))) = Fin (10 ^ 31) \<and>
   fst (the (calc_forces_stiweb b_mpi ex_plain g_none 100 [rd_plain] 0 (st_none sw_zero))) = Fin 0 \<and>
   calc_forces_stiweb b_mpi ex_plain (g_none\<lparr> myid := 1 \<rparr>) 100 [rd_plain] 0 (st_none sw_zero) = None"
proof -
  have h: "MPI b_mpi \<longrightarrow> (0::int) \<noteq> 1" by simp
  have c: "myid g_none = 0" "MPI b_mpi" "myid (g_none\<lparr> myid := 1 \<rparr>) \<noteq> 0" "bcast_flag rd_plain \<noteq> 1"
    by (simp_all add: g_none_def b_mpi_def rd_plain_def)
  have e: "tmpsum (evaluate b_mpi g_none 100 (receive ex_plain g_none 100 rd_plain (st_none sw_zero\<lparr> tmpsum := 0 \<rparr>))) = 0"
    by (subst evaluate_none) (simp_all add: receive_def st_none_def)
  have n: "fst (apot_punish ex_nan m a fs) = NaN" "fst (apot_punish ex_plain m a fs) = Fin 0"
      "reduce_others rd_plain = Fin 0" for m a fs
    by (simp_all add: ex_nan_def ex_plain_def rd_plain_def)
  have r1: "fst (the (calc_forces_stiweb b_mpi ex_nan g_none 100 [rd_plain] 0 (st_none sw_zero))) = Fin (10 ^ 31)"
  proof -
    note t = root_returns_objective [OF h, where g = g_none and ex = ex_nan and xi_opt = 100
        and rd = rd_plain and rest = "[]" and st = "st_none sw_zero" and rounds = "[]"]
    from t c have s: "fst (mpi_iteration b_mpi ex_nan g_none 100 rd_plain (st_none sw_zero)) = NaN"
      by (simp add: n)
    from t c have "calc_forces_stiweb b_mpi ex_nan g_none 100 [rd_plain] 0 (st_none sw_zero) =
        Some (if isnan (fst (mpi_iteration b_mpi ex_nan g_none 100 rd_plain (st_none sw_zero)))
              then Fin (10 ^ 31)
              else fst (mpi_iteration b_mpi ex_nan g_none 100 rd_plain (st_none sw_zero)),
              (snd (mpi_iteration b_mpi ex_nan g_none 100 rd_plain (st_none sw_zero)))
                \<lparr> fcalls := fcalls (st_none sw_zero) + 1 \<rparr>)"
      by blast
    then show ?thesis by (simp add: s)
  qed
  have r2: "fst (the (calc_forces_stiweb b_mpi ex_plain g_none 100 [rd_plain] 0 (st_none sw_zero))) = Fin 0"
  proof -
    note t = root_returns_objective [OF h, where g = g_none and ex = ex_plain and xi_opt = 100
        and rd = rd_plain and rest = "[]" and st = "st_none sw_zero" and rounds = "[]"]
    from t c have s: "fst (mpi_iteration b_mpi ex_plain g_none 100 rd_plain (st_none sw_zero)) = Fin 0"
      by (simp add: n e)
    from t c have "calc_forces_stiweb b_mpi ex_plain g_none 100 [rd_plain] 0 (st_none sw_zero) =
        Some (if isnan (fst (mpi_iteration b_mpi ex_plain g_none 100 rd_plain (st_none sw_zero)))
              then Fin (10 ^ 31)
              else fst (mpi_iteration b_mpi ex_plain g_none 100 rd_plain (st_none sw_zero)),
              (snd (mpi_iteration b_mpi ex_plain g_none 100 rd_plain (st_none sw_zero)))
                \<lparr> fcalls := fcalls (st_none sw_zero) + 1 \<rparr>)"
      by blast
    then show ?thesis by (simp add: s)
  qed
  have r3: "calc_forces_stiweb b_mpi ex_plain (g_none\<lparr> myid := 1 \<rparr>) 100 [rd_plain] 0 (st_none sw_zero) = None"
    using c root_returns_objective [OF h, where g = "g_none\<lparr> myid := 1 \<rparr>" and ex = ex_plain
        and xi_opt = 100 and rd = rd_plain and rest = "[]" and st = "st_none sw_zero" and rounds = "[]"]
    by blast
  show ?thesis
    using c r1 r2 r3 by simp
qed

subsection \<open>The output buffer\<close>

lemma add_to_apply: "add_to fs i v x = (if x = i then fs i + v else fs x)"
  by (simp add: add_to_def)

lemma sub_from_apply: "sub_from fs i v x = (if x = i then fs i - v else fs x)"
  by (simp add: sub_from_def)

lemma power_m_2: "power_m 2 [x0, x1] [y0, y1] = [x0 powr y0, x1 powr y1]"
  by (simp add: power_m_def numeral_2_eq_2)

subsection \<open>The pair term\<close>

lemma pair_term_outside:
  assumes "\<not> neigh_r nj < m (sw_a1 s ! neigh_col nj)"
  shows "pair_term b g m s h i nj (v0, fs) = (v0, fs)"
  using assms by (simp add: pair_term_def)

lemma pair_eval_spec:
  "phi_r (pair_eval m s uf v0 nj)
     = phi_r_spec (m (sw_A s ! neigh_col nj)) (m (sw_p s ! neigh_col nj)) (neigh_r nj)"
  "phi_a (pair_eval m s uf v0 nj)
     = phi_a_spec (m (sw_B s ! neigh_col nj)) (m (sw_q s ! neigh_col nj)) (neigh_r nj)"
  "f_cut (pair_eval m s uf v0 nj)
     = f_cut_spec (m (sw_delta s ! neigh_col nj)) (m (sw_a1 s ! neigh_col nj)) (neigh_r nj)"
  "v2_val (pair_eval m s uf v0 nj)
     = v2_spec (m (sw_A s ! neigh_col nj)) (m (sw_B s ! neigh_col nj))
         (m (sw_p s ! neigh_col nj)) (m (sw_q s ! neigh_col nj))
         (m (sw_delta s ! neigh_col nj)) (m (sw_a1 s ! neigh_col nj)) (neigh_r nj)"
  by (simp_all add: pair_eval_def Let_def power_m_2 phi_r_spec_def phi_a_spec_def
      f_cut_spec_def v2_spec_def)

lemma pair_eval_grad_spec:
  assumes "neigh_inv_r nj = 1 / neigh_r nj" and "uf \<noteq> 0"
  shows "v2_grad (pair_eval m s uf v0 nj)
     = v2_grad_spec (m (sw_A s ! neigh_col nj)) (m (sw_B s ! neigh_col nj))
         (m (sw_p s ! neigh_col nj)) (m (sw_q s ! neigh_col nj))
         (m (sw_delta s ! neigh_col nj)) (m (sw_a1 s ! neigh_col nj)) (neigh_r nj)"
  using assms
  by (simp add: pair_eval_def Let_def power_m_2 phi_r_spec_def phi_a_spec_def
      f_cut_spec_def v2_spec_def v2_grad_spec_def power2_eq_square)

lemma pair_eval_grad_kept:
  "v2_grad (pair_eval m s 0 v0 nj) = v0"
  by (simp add: pair_eval_def Let_def)

text \<open>
  C1. For a neighbour at distance \<open>r\<close> below the pair cutoff \<open>a1\<close> the pair evaluation
  computes \<open>phi_r = A r^-p\<close>, \<open>phi_a = - B r^-q\<close>, \<open>f_cut = exp (delta / (r - a1))\<close>,
  \<open>v2 = (phi_r + phi_a) f_cut\<close> and, under force fitting, the gradient
  \<open>- v2 delta / (r - a1)^2 - f_cut (1 / r) (p phi_r + q phi_a)\<close>, where \<open>1 / r\<close> is the
  stored inverse distance. These are the values the pair term puts into the buffer:
  half of \<open>v2\<close> is added to the energy of the configuration and, under force
  fitting, the gradient times the unit vector of the neighbour is added to the
  force of the atom (both halved once more for a self-interaction), and with stress
  fitting the six stress components change by the products with this force.
  Without force fitting only the energy changes. For a neighbour at \<open>a1\<close> or beyond
  the pair term leaves the whole buffer (energy, forces and stress) as it is.
\<close>

theorem pair_term_closed_form:
  assumes "0 < neigh_r nj" and "neigh_inv_r nj = 1 / neigh_r nj"
  shows "(neigh_r nj < m (sw_a1 s ! neigh_col nj) \<longrightarrow>
            phi_r (pair_eval m s uf v0 nj)
              = m (sw_A s ! neigh_col nj) * neigh_r nj powr (- m (sw_p s ! neigh_col nj)) \<and>
            phi_a (pair_eval m s uf v0 nj)
              = - m (sw_B s ! neigh_col nj) * neigh_r nj powr (- m (sw_q s ! neigh_col nj)) \<and>
            f_cut (pair_eval m s uf v0 nj)
              = exp (m (sw_delta s ! neigh_col nj) / (neigh_r nj - m (sw_a1 s ! neigh_col nj))) \<and>
            v2_val (pair_eval m s uf v0 nj)
              = v2_spec (m (sw_A s ! neigh_col nj)) (m (sw_B s ! neigh_col nj))
                  (m (sw_p s ! neigh_col nj)) (m (sw_q s ! neigh_col nj))
                  (m (sw_delta s ! neigh_col nj)) (m (sw_a1 s ! neigh_col nj)) (neigh_r nj) \<and>
            (uf \<noteq> 0 \<longrightarrow>
               v2_grad (pair_eval m s uf v0 nj)
                 = v2_grad_spec (m (sw_A s ! neigh_col nj)) (m (sw_B s ! neigh_col nj))
                     (m (sw_p s ! neigh_col nj)) (m (sw_q s ! neigh_col nj))
                     (m (sw_delta s ! neigh_col nj)) (m (sw_a1 s ! neigh_col nj)) (neigh_r nj)) \<and>
            (conf_uf g (h - firstconf g) = 0 \<longrightarrow>
               snd (pair_term b g m s h i nj (v0, fs)) =
                 add_to fs (energy_p g + h)
                   (0.5 * v2_of m s (neigh_nr nj = i + cnfstart g h) nj)) \<and>
            (conf_uf g (h - firstconf g) \<noteq> 0 \<longrightarrow>
               snd (pair_term b g m s h i nj (v0, fs)) =
                 (let k = 3 * (cnfstart g h + i);
                      v2g = v2_grad_of m s (neigh_nr nj = i + cnfstart g h) nj;
                      tmp_force = \<lparr> vec_x = vec_x (neigh_dist nj) * v2g,
                                    vec_y = vec_y (neigh_dist nj) * v2g,
                                    vec_z = vec_z (neigh_dist nj) * v2g \<rparr>;
                      fs4 = add_to (add_to (add_to
                              (add_to fs (energy_p g + h)
                                 (0.5 * v2_of m s (neigh_nr nj = i + cnfstart g h) nj))
                              k (vec_x tmp_force)) (k + 1) (vec_y tmp_force)) (k + 2) (vec_z tmp_force)
                  in if STRESS b \<and> conf_us g (h - firstconf g) \<noteq> 0
                     then pair_stress (stress_p g + 6 * h) (neigh_rdist nj) tmp_force fs4
                     else fs4))) \<and>
         (\<not> neigh_r nj < m (sw_a1 s ! neigh_col nj) \<longrightarrow>
            pair_term b g m s h i nj (v0, fs) = (v0, fs))"
proof -
  let ?uf = "conf_uf g (h - firstconf g)"
  have e0: "snd (pair_term b g m s h i nj (v0, fs)) =
                 add_to fs (energy_p g + h)
                   (0.5 * v2_of m s (neigh_nr nj = i + cnfstart g h) nj)"
    if "neigh_r nj < m (sw_a1 s ! neigh_col nj)" "?uf = 0"
    using that by (simp add: pair_term_def Let_def v2_of_def pair_eval_spec)
  have e1: "snd (pair_term b g m s h i nj (v0, fs)) =
                 (let k = 3 * (cnfstart g h + i);
                      v2g = v2_grad_of m s (neigh_nr nj = i + cnfstart g h) nj;
                      tmp_force = \<lparr> vec_x = vec_x (neigh_dist nj) * v2g,
                                    vec_y = vec_y (neigh_dist nj) * v2g,
                                    vec_z = vec_z (neigh_dist nj) * v2g \<rparr>;
                      fs4 = add_to (add_to (add_to
                              (add_to fs (energy_p g + h)
                                 (0.5 * v2_of m s (neigh_nr nj = i + cnfstart g h) nj))
                              k (vec_x tmp_force)) (k + 1) (vec_y tmp_force)) (k + 2) (vec_z tmp_force)
                  in if STRESS b \<and> conf_us g (h - firstconf g) \<noteq> 0
                     then pair_stress (stress_p g + 6 * h) (neigh_rdist nj) tmp_force fs4
                     else fs4)"
    if "neigh_r nj < m (sw_a1 s ! neigh_col nj)" "?uf \<noteq> 0"
    using that pair_eval_grad_spec[OF assms(2) that(2), of m s v0]
    by (simp add: pair_term_def Let_def v2_of_def v2_grad_of_def pair_eval_spec)
  show ?thesis
    apply (intro conjI impI)
           apply (simp add: pair_eval_spec phi_r_spec_def)
          apply (simp add: pair_eval_spec phi_a_spec_def)
         apply (simp add: pair_eval_spec f_cut_spec_def)
        apply (rule pair_eval_spec)
       apply (erule pair_eval_grad_spec[OF assms(2)])
      apply (erule (1) e0)
     apply (erule (1) e1)
    apply (erule pair_term_outside)
    done
qed

theorem pair_term_closed_form_witness:
  "0 < neigh_r (neigh_ex 1 2) \<and> neigh_inv_r (neigh_ex 1 2) = 1 / neigh_r (neigh_ex 1 2) \<and>
   neigh_r (neigh_ex 1 2) < m_pair (sw_a1 sw_one ! neigh_col (neigh_ex 1 2)) \<and>
   conf_uf g_one (0 - firstconf g_one) \<noteq> 0 \<and>
   phi_r (pair_eval m_pair sw_one 1 0 (neigh_ex 1 2)) = 2 \<and>
   phi_a (pair_eval m_pair sw_one 1 0 (neigh_ex 1 2)) = - 1 \<and>
   f_cut (pair_eval m_pair sw_one 1 0 (neigh_ex 1 2)) = exp (- 1) \<and>
   v2_val (pair_eval m_pair sw_one 1 0 (neigh_ex 1 2)) = exp (- 1) \<and>
   v2_grad (pair_eval m_pair sw_one 1 0 (neigh_ex 1 2)) = - 2 * exp (- 1) \<and>
   snd (pair_term b_serial g_one m_pair sw_one 0 0 (neigh_ex 1 2) (0, \<lambda>k. 0)) 9 = exp (- 1) / 2 \<and>
   snd (pair_term b_serial g_one m_pair sw_one 0 0 (neigh_ex 1 2) (0, \<lambda>k. 0)) 0 = - 2 * exp (- 1) \<and>
   snd (pair_term b_serial g_one m_pair sw_one 0 0 (neigh_ex 1 0) (0, \<lambda>k. 0)) 9 = exp (- 1) / 4 \<and>
   snd (pair_term b_serial g_one m_pair sw_one 0 0 (neigh_ex 1 0) (0, \<lambda>k. 0)) 0 = - exp (- 1) \<and>
   conf_uf g_none (0 - firstconf g_none) = 0 \<and>
   snd (pair_term b_serial g_none m_pair sw_one 0 0 (neigh_ex 1 2) (0, \<lambda>k. 0))
     = add_to (\<lambda>k. 0) 0 (exp (- 1) / 2) \<and>
   0 < neigh_r (neigh_ex 3 2) \<and> neigh_inv_r (neigh_ex 3 2) = 1 / neigh_r (neigh_ex 3 2) \<and>
   \<not> neigh_r (neigh_ex 3 2) < m_pair (sw_a1 sw_one ! neigh_col (neigh_ex 3 2)) \<and>
   pair_term b_serial g_one m_pair sw_one 0 0 (neigh_ex 3 2) (5, \<lambda>k. 7) = (5, \<lambda>k. 7)"
proof -
  have h: "0 < neigh_r (neigh_ex 1 2)" "neigh_inv_r (neigh_ex 1 2) = 1 / neigh_r (neigh_ex 1 2)"
    "0 < neigh_r (neigh_ex 3 2)" "neigh_inv_r (neigh_ex 3 2) = 1 / neigh_r (neigh_ex 3 2)"
    by (simp_all add: neigh_ex_def)
  have c: "neigh_r (neigh_ex 1 2) < m_pair (sw_a1 sw_one ! neigh_col (neigh_ex 1 2))"
    "\<not> neigh_r (neigh_ex 3 2) < m_pair (sw_a1 sw_one ! neigh_col (neigh_ex 3 2))"
    by (simp_all add: neigh_ex_def m_pair_def sw_one_def sw_layout_def)
  have u: "conf_uf g_one (0 - firstconf g_one) \<noteq> 0" "(1::int) \<noteq> 0"
    "conf_uf g_none (0 - firstconf g_none) = 0"
    by (simp_all add: g_one_def g_none_def)
  have hs: "0 < neigh_r (neigh_ex 1 0)" "neigh_inv_r (neigh_ex 1 0) = 1 / neigh_r (neigh_ex 1 0)"
    "neigh_r (neigh_ex 1 0) < m_pair (sw_a1 sw_one ! neigh_col (neigh_ex 1 0))"
    by (simp_all add: neigh_ex_def m_pair_def sw_one_def sw_layout_def)
  have vs: "neigh_r (neigh_ex 1 0) = 1" "neigh_col (neigh_ex 1 0) = 0"
    "neigh_nr (neigh_ex 1 0) = 0"
    "neigh_dist (neigh_ex 1 0) = \<lparr> vec_x = 1, vec_y = 0, vec_z = 0 \<rparr>"
    "energy_p g_none = 0" "cnfstart g_none 0 = 0"
    by (simp_all add: neigh_ex_def g_none_def)
  have v: "neigh_r (neigh_ex 1 2) = 1" "neigh_col (neigh_ex 1 2) = 0"
    "neigh_nr (neigh_ex 1 2) = 2"
    "neigh_dist (neigh_ex 1 2) = \<lparr> vec_x = 1, vec_y = 0, vec_z = 0 \<rparr>"
    "m_pair (sw_A sw_one ! 0) = 2" "m_pair (sw_B sw_one ! 0) = 1"
    "m_pair (sw_p sw_one ! 0) = 1" "m_pair (sw_q sw_one ! 0) = 1"
    "m_pair (sw_delta sw_one ! 0) = 1" "m_pair (sw_a1 sw_one ! 0) = 2"
    "energy_p g_one = 9" "cnfstart g_one 0 = 0" "\<not> STRESS b_serial"
    by (simp_all add: neigh_ex_def m_pair_def sw_one_def sw_layout_def g_one_def b_serial_def)
  have sp: "v2_spec 2 1 1 1 1 2 1 = exp (- 1)" "v2_grad_spec 2 1 1 1 1 2 1 = - 2 * exp (- 1)"
    by (simp_all add: v2_grad_spec_def v2_spec_def phi_r_spec_def phi_a_spec_def f_cut_spec_def)
  note t1 = pair_term_closed_form [OF h(1,2), where m = m_pair and s = sw_one and uf = 1
      and ?v0.0 = 0 and g = g_one and h = 0 and b = b_serial and i = 0 and fs = "\<lambda>k. 0"]
  note t2 = pair_term_closed_form [OF h(3,4), where m = m_pair and s = sw_one and uf = 1
      and ?v0.0 = 5 and g = g_one and h = 0 and b = b_serial and i = 0 and fs = "\<lambda>k. 7"]
  from t1 c(1) have p: "phi_r (pair_eval m_pair sw_one 1 0 (neigh_ex 1 2)) = 2"
    "phi_a (pair_eval m_pair sw_one 1 0 (neigh_ex 1 2)) = - 1"
    "f_cut (pair_eval m_pair sw_one 1 0 (neigh_ex 1 2)) = exp (- 1)"
    by (simp_all add: v)
  from t1 c(1) have w: "v2_val (pair_eval m_pair sw_one 1 0 (neigh_ex 1 2)) = exp (- 1)"
    by (simp add: v sp)
  from t1 c(1) u(2) have d: "v2_grad (pair_eval m_pair sw_one 1 0 (neigh_ex 1 2)) = - 2 * exp (- 1)"
    by (simp add: v sp)
  from t1 c(1) u(1) have "snd (pair_term b_serial g_one m_pair sw_one 0 0 (neigh_ex 1 2) (0, \<lambda>k. 0)) =
     (let k = 3 * (cnfstart g_one 0 + 0);
          v2g = v2_grad_of m_pair sw_one (neigh_nr (neigh_ex 1 2) = 0 + cnfstart g_one 0) (neigh_ex 1 2);
          tmp_force = \<lparr> vec_x = vec_x (neigh_dist (neigh_ex 1 2)) * v2g,
                        vec_y = vec_y (neigh_dist (neigh_ex 1 2)) * v2g,
                        vec_z = vec_z (neigh_dist (neigh_ex 1 2)) * v2g \<rparr>;
          fs4 = add_to (add_to (add_to
                  (add_to (\<lambda>k. 0) (energy_p g_one + 0)
                     (0.5 * v2_of m_pair sw_one (neigh_nr (neigh_ex 1 2) = 0 + cnfstart g_one 0) (neigh_ex 1 2)))
                  k (vec_x tmp_force)) (k + 1) (vec_y tmp_force)) (k + 2) (vec_z tmp_force)
      in if STRESS b_serial \<and> conf_us g_one (0 - firstconf g_one) \<noteq> 0
         then pair_stress (stress_p g_one + 6 * 0) (neigh_rdist (neigh_ex 1 2)) tmp_force fs4
         else fs4)"
    by blast
  then have b: "snd (pair_term b_serial g_one m_pair sw_one 0 0 (neigh_ex 1 2) (0, \<lambda>k. 0)) 9 = exp (- 1) / 2"
    "snd (pair_term b_serial g_one m_pair sw_one 0 0 (neigh_ex 1 2) (0, \<lambda>k. 0)) 0 = - 2 * exp (- 1)"
    by (simp_all add: Let_def v sp v2_of_def v2_grad_of_def add_to_apply)
  note t3 = pair_term_closed_form [OF hs(1,2), where m = m_pair and s = sw_one and uf = 1
      and ?v0.0 = 0 and g = g_one and h = 0 and b = b_serial and i = 0 and fs = "\<lambda>k. 0"]
  from t3 hs(3) u(1) have "snd (pair_term b_serial g_one m_pair sw_one 0 0 (neigh_ex 1 0) (0, \<lambda>k. 0)) =
     (let k = 3 * (cnfstart g_one 0 + 0);
          v2g = v2_grad_of m_pair sw_one (neigh_nr (neigh_ex 1 0) = 0 + cnfstart g_one 0) (neigh_ex 1 0);
          tmp_force = \<lparr> vec_x = vec_x (neigh_dist (neigh_ex 1 0)) * v2g,
                        vec_y = vec_y (neigh_dist (neigh_ex 1 0)) * v2g,
                        vec_z = vec_z (neigh_dist (neigh_ex 1 0)) * v2g \<rparr>;
          fs4 = add_to (add_to (add_to
                  (add_to (\<lambda>k. 0) (energy_p g_one + 0)
                     (0.5 * v2_of m_pair sw_one (neigh_nr (neigh_ex 1 0) = 0 + cnfstart g_one 0) (neigh_ex 1 0)))
                  k (vec_x tmp_force)) (k + 1) (vec_y tmp_force)) (k + 2) (vec_z tmp_force)
      in if STRESS b_serial \<and> conf_us g_one (0 - firstconf g_one) \<noteq> 0
         then pair_stress (stress_p g_one + 6 * 0) (neigh_rdist (neigh_ex 1 0)) tmp_force fs4
         else fs4)"
    by blast
  then have bs: "snd (pair_term b_serial g_one m_pair sw_one 0 0 (neigh_ex 1 0) (0, \<lambda>k. 0)) 9 = exp (- 1) / 4"
    "snd (pair_term b_serial g_one m_pair sw_one 0 0 (neigh_ex 1 0) (0, \<lambda>k. 0)) 0 = - exp (- 1)"
    by (simp_all add: Let_def v vs sp v2_of_def v2_grad_of_def add_to_apply)
  note t4 = pair_term_closed_form [OF h(1,2), where m = m_pair and s = sw_one and uf = 1
      and ?v0.0 = 0 and g = g_none and h = 0 and b = b_serial and i = 0 and fs = "\<lambda>k. 0"]
  from t4 c(1) u(3) have "snd (pair_term b_serial g_none m_pair sw_one 0 0 (neigh_ex 1 2) (0, \<lambda>k. 0))
      = add_to (\<lambda>k. 0) (energy_p g_none + 0)
          (0.5 * v2_of m_pair sw_one (neigh_nr (neigh_ex 1 2) = 0 + cnfstart g_none 0) (neigh_ex 1 2))"
    by blast
  then have bn: "snd (pair_term b_serial g_none m_pair sw_one 0 0 (neigh_ex 1 2) (0, \<lambda>k. 0))
      = add_to (\<lambda>k. 0) 0 (exp (- 1) / 2)"
    by (simp add: v vs sp v2_of_def)
  from t2 c(2) have o: "pair_term b_serial g_one m_pair sw_one 0 0 (neigh_ex 3 2) (5, \<lambda>k. 7) = (5, \<lambda>k. 7)"
    by blast
  show ?thesis using h c u(1,3) p w d b bs bn o by simp
qed

subsection \<open>The three-body term\<close>

lemma add_fl_apply: "add_fl rnd fs i v x = (if x = i then rnd (fs i + v) else fs x)"
  by (simp add: add_fl_def)

lemma sub_fl_apply: "sub_fl rnd fs i v x = (if x = i then rnd (fs i - v) else fs x)"
  by (simp add: sub_fl_def)



lemma triple_forces_frame:
  assumes "x \<notin> {k, k + 1, k + 2, l, l + 1, l + 2, n, n + 1, n + 2}"
  shows "triple_forces rnd k l n fj fk fs x = fs x"
  using assms by (simp add: triple_forces_def Let_def add_fl_apply sub_fl_apply)

lemma triple_stress_frame:
  assumes "x < st \<or> st + 5 < x"
  shows "triple_stress st fj rj fk rk fs x = fs x"
  using assms by (auto simp: triple_stress_def Let_def add_to_apply)

lemma pair_stress_frame:
  assumes "x < st \<or> st + 5 < x"
  shows "pair_stress st rd tf fs x = fs x"
  using assms by (auto simp: pair_stress_def Let_def sub_from_apply)

lemma triple_term_outside:
  assumes "\<not> neigh_r (atom_neigh a ! kk) < m (sw_a2 s ! neigh_col (atom_neigh a ! kk)) \<or>
           m (sw_lambda s ! atom_typ a ! neigh_typ (atom_neigh a ! jj) ! neigh_typ (atom_neigh a ! kk)) = 0"
  shows "snd (triple_term b g m s h i a jj kk (ijk, fs)) = fs"
  using assms by (auto simp: triple_term_def Let_def)

lemma triple_pass_outside:
  assumes "\<not> neigh_r (atom_neigh a ! jj) < m (sw_a2 s ! neigh_col (atom_neigh a ! jj))"
  shows "triple_pass b g m s h i a jj fs = fs"
  using assms by (simp add: triple_pass_def Let_def)

lemma v3_val_eq:
  "v3_val (triple_eval lam nj nk ang) = lam * neigh_f nj * neigh_f nk * (angl_cos ang + 1 / 3) ^ 2"
  by (simp add: triple_eval_def Let_def power2_eq_square)

lemma triple_term_fst: "fst (triple_term b g m s h i a jj kk (ijk, fs)) = ijk + 1"
  by (simp add: triple_term_def Let_def)

lemma triple_term_energy:
  assumes "3 * (cnfstart g h + i) + 2 < energy_p g + h"
    and "3 * neigh_nr (atom_neigh a ! jj) + 2 < energy_p g + h"
    and "3 * neigh_nr (atom_neigh a ! kk) + 2 < energy_p g + h"
    and "energy_p g + h < stress_p g + 6 * h"
  shows "snd (triple_term b g m s h i a jj kk (ijk, fs)) (energy_p g + h) =
           fs (energy_p g + h) +
           (if neigh_r (atom_neigh a ! kk) < m (sw_a2 s ! neigh_col (atom_neigh a ! kk))
            then m (sw_lambda s ! atom_typ a ! neigh_typ (atom_neigh a ! jj) ! neigh_typ (atom_neigh a ! kk))
                 * neigh_f (atom_neigh a ! jj) * neigh_f (atom_neigh a ! kk)
                 * (angl_cos (atom_angl_part a ! ijk) + 1 / 3) ^ 2
            else 0)"
proof -
  have fr: "triple_forces rnd k' l' n' fj fk f (energy_p g + h) = f (energy_p g + h)"
    if "k' + 2 < energy_p g + h" "l' + 2 < energy_p g + h" "n' + 2 < energy_p g + h"
    for rnd k' l' n' fj fk f
    using that by (intro triple_forces_frame) auto
  have sr: "triple_stress (stress_p g + 6 * h) fj rj fk rk f (energy_p g + h) = f (energy_p g + h)"
    for fj rj fk rk f
    using assms by (intro triple_stress_frame) simp
  show ?thesis
    using assms by (simp add: triple_term_def Let_def fr sr add_to_apply v3_val_eq)
qed

lemma triple_inner_loop:
  assumes "3 * (cnfstart g h + i) + 2 < energy_p g + h"
    and "\<forall>nb \<in> set (atom_neigh a). 3 * neigh_nr nb + 2 < energy_p g + h"
    and "energy_p g + h < stress_p g + 6 * h"
    and "jj < n" "n \<le> n_neigh a"
  shows "snd (for_loop (Suc jj) n (triple_term b g m s h i a jj) (ijk, fs)) (energy_p g + h) =
           fs (energy_p g + h) +
           (\<Sum>kk = Suc jj..<n.
              if neigh_r (atom_neigh a ! kk) < m (sw_a2 s ! neigh_col (atom_neigh a ! kk))
              then m (sw_lambda s ! atom_typ a ! neigh_typ (atom_neigh a ! jj) ! neigh_typ (atom_neigh a ! kk))
                   * neigh_f (atom_neigh a ! jj) * neigh_f (atom_neigh a ! kk)
                   * (angl_cos (atom_angl_part a ! (ijk + (kk - jj - 1))) + 1 / 3) ^ 2
              else 0)"
proof -
  let ?E = "energy_p g + h"
  let ?T = "\<lambda>kk. if neigh_r (atom_neigh a ! kk) < m (sw_a2 s ! neigh_col (atom_neigh a ! kk))
              then m (sw_lambda s ! atom_typ a ! neigh_typ (atom_neigh a ! jj) ! neigh_typ (atom_neigh a ! kk))
                   * neigh_f (atom_neigh a ! jj) * neigh_f (atom_neigh a ! kk)
                   * (angl_cos (atom_angl_part a ! (ijk + (kk - jj - 1))) + 1 / 3) ^ 2
              else 0"
  let ?P = "\<lambda>n' t. fst t = ijk + (n' - Suc jj) \<and> snd t ?E = fs ?E + (\<Sum>kk = Suc jj..<n'. ?T kk)"
  have nb: "3 * neigh_nr (atom_neigh a ! k) + 2 < ?E" if "k < n" for k
    using assms(2,5) that by (simp add: n_neigh_def)
  have "?P n (for_loop (Suc jj) n (triple_term b g m s h i a jj) (ijk, fs))"
  proof (rule for_loop_inv[where P = ?P])
    show "?P (Suc jj) (ijk, fs)" by simp
  next
    fix j t
    assume j: "Suc jj \<le> j" "j < n" and p: "?P j t"
    obtain c f where t: "t = (c, f)" by (cases t)
    from j have jjn: "jj < n" by simp
    have e: "snd (triple_term b g m s h i a jj j (c, f)) ?E = f ?E +
        (if neigh_r (atom_neigh a ! j) < m (sw_a2 s ! neigh_col (atom_neigh a ! j))
            then m (sw_lambda s ! atom_typ a ! neigh_typ (atom_neigh a ! jj) ! neigh_typ (atom_neigh a ! j))
                 * neigh_f (atom_neigh a ! jj) * neigh_f (atom_neigh a ! j)
                 * (angl_cos (atom_angl_part a ! c) + 1 / 3) ^ 2
            else 0)"
      by (rule triple_term_energy[OF assms(1) nb[OF jjn] nb[OF j(2)] assms(3)])
    from p t have c: "c = ijk + (j - Suc jj)" and f: "f ?E = fs ?E + (\<Sum>kk = Suc jj..<j. ?T kk)"
      by simp_all
    from j have c': "c = ijk + (j - jj - 1)" by (simp add: c)
    have 1: "fst (triple_term b g m s h i a jj j t) = ijk + (Suc j - Suc jj)"
      using j by (simp add: t triple_term_fst c)
    have "snd (triple_term b g m s h i a jj j t) ?E = f ?E + ?T j"
      using e unfolding t c' .
    also have "\<dots> = fs ?E + ((\<Sum>kk = Suc jj..<j. ?T kk) + ?T j)"
      by (simp only: f add.assoc)
    also have "(\<Sum>kk = Suc jj..<j. ?T kk) + ?T j = (\<Sum>kk = Suc jj..<Suc j. ?T kk)"
      using j(1) by (simp only: sum.atLeastLessThan_Suc)
    finally have 2: "snd (triple_term b g m s h i a jj j t) ?E
        = fs ?E + (\<Sum>kk = Suc jj..<Suc j. ?T kk)" .
    show "?P (Suc j) (triple_term b g m s h i a jj j t)"
      using 1 2 by (rule conjI)
  next
    show "Suc jj \<le> n" using assms(4) by simp
  qed
  then show ?thesis by simp
qed

lemma triple_pass_energy:
  assumes "3 * (cnfstart g h + i) + 2 < energy_p g + h"
    and "\<forall>nb \<in> set (atom_neigh a). 3 * neigh_nr nb + 2 < energy_p g + h"
    and "energy_p g + h < stress_p g + 6 * h"
    and "jj < n_neigh a"
  shows "triple_pass b g m s h i a jj fs (energy_p g + h) =
           fs (energy_p g + h) + (\<Sum>kk = Suc jj..<n_neigh a. v3_spec m s a jj kk)"
proof (cases "neigh_r (atom_neigh a ! jj) < m (sw_a2 s ! neigh_col (atom_neigh a ! jj))")
  case True
  then show ?thesis
    using triple_inner_loop[OF assms(1-4) order_refl, of b m s "neigh_ijk_start (atom_neigh a ! jj)" fs]
    by (simp add: triple_pass_def Let_def v3_spec_def)
next
  case False
  then show ?thesis by (simp add: triple_pass_outside v3_spec_def)
qed

lemma triple_loops_energy:
  assumes "3 * (cnfstart g h + i) + 2 < energy_p g + h"
    and "\<forall>nb \<in> set (atom_neigh a). 3 * neigh_nr nb + 2 < energy_p g + h"
    and "energy_p g + h < stress_p g + 6 * h"
  shows "for_loop 0 (n_neigh a - 1) (triple_pass b g m s h i a) fs (energy_p g + h) =
           fs (energy_p g + h) + (\<Sum>jj = 0..<n_neigh a. \<Sum>kk = Suc jj..<n_neigh a. v3_spec m s a jj kk)"
proof -
  let ?E = "energy_p g + h"
  let ?S = "\<lambda>jj. \<Sum>kk = Suc jj..<n_neigh a. v3_spec m s a jj kk"
  let ?P = "\<lambda>n' f. f ?E = fs ?E + (\<Sum>jj = 0..<n'. ?S jj)"
  have "?P (n_neigh a - 1) (for_loop 0 (n_neigh a - 1) (triple_pass b g m s h i a) fs)"
  proof (rule for_loop_inv[where P = ?P])
    show "?P 0 fs" by simp
  next
    fix j t
    assume "0 \<le> j" and j: "j < n_neigh a - 1" and p: "?P j t"
    then have "j < n_neigh a" by simp
    from triple_pass_energy[OF assms this, of b m s t] p
    show "?P (Suc j) (triple_pass b g m s h i a j t)" by simp
  qed simp
  moreover have "(\<Sum>jj = 0..<n_neigh a. ?S jj) = (\<Sum>jj = 0..<n_neigh a - 1. ?S jj)"
  proof (cases "n_neigh a")
    case 0
    then show ?thesis by simp
  next
    case (Suc k)
    then show ?thesis by simp
  qed
  ultimately show ?thesis by simp
qed

text \<open>
  C2. For an atom \<open>i\<close> the loops over \<open>jj < kk\<close> add to the energy of the configuration,
  once for every unordered pair of neighbour entries and with no factor,
  \<open>lambda[typ i][typ j][typ k] f_j f_k (cos + 1/3)^2\<close> with the cosine of the angular
  cache, when both neighbours lie within their cutoff \<open>a2\<close>, and nothing otherwise
  (the energy slot lies behind the force slots and before the stress slots, as
  the buffer is laid out). A pair with the second neighbour at or beyond \<open>a2\<close> or
  with \<open>lambda = 0\<close>, and every pair of a first neighbour at or beyond \<open>a2\<close>, leaves
  the whole buffer (energy, forces and stress) as it is.
\<close>

theorem triple_energy_once:
  assumes "3 * (cnfstart g h + i) + 2 < energy_p g + h"
    and "\<forall>nb \<in> set (atom_neigh a). 3 * neigh_nr nb + 2 < energy_p g + h"
    and "energy_p g + h < stress_p g + 6 * h"
  shows "for_loop 0 (n_neigh a - 1) (triple_pass b g m s h i a) fs (energy_p g + h) =
           fs (energy_p g + h) +
           (\<Sum>jj = 0..<n_neigh a. \<Sum>kk = Suc jj..<n_neigh a. v3_spec m s a jj kk) \<and>
         (\<forall>jj kk ijk f.
            \<not> neigh_r (atom_neigh a ! kk) < m (sw_a2 s ! neigh_col (atom_neigh a ! kk)) \<or>
            m (sw_lambda s ! atom_typ a ! neigh_typ (atom_neigh a ! jj) ! neigh_typ (atom_neigh a ! kk)) = 0
            \<longrightarrow> snd (triple_term b g m s h i a jj kk (ijk, f)) = f) \<and>
         (\<forall>jj f. \<not> neigh_r (atom_neigh a ! jj) < m (sw_a2 s ! neigh_col (atom_neigh a ! jj))
            \<longrightarrow> triple_pass b g m s h i a jj f = f) \<and>
         (\<forall>lam nj nk ang.
            v3_val (triple_eval lam nj nk ang)
              = lam * neigh_f nj * neigh_f nk * (angl_cos ang + 1 / 3) ^ 2)"
proof (intro conjI allI impI)
  show "for_loop 0 (n_neigh a - 1) (triple_pass b g m s h i a) fs (energy_p g + h) =
           fs (energy_p g + h) +
           (\<Sum>jj = 0..<n_neigh a. \<Sum>kk = Suc jj..<n_neigh a. v3_spec m s a jj kk)"
    by (rule triple_loops_energy[OF assms])
qed (simp_all add: triple_term_outside triple_pass_outside v3_val_eq)

theorem triple_energy_once_witness:
  "3 * (cnfstart g_one 0 + 0) + 2 < energy_p g_one + 0 \<and>
   3 * neigh_nr (neigh_ex 1 1) + 2 < energy_p g_one + 0 \<and>
   3 * neigh_nr (neigh_ex 1 2) + 2 < energy_p g_one + 0 \<and>
   3 * neigh_nr (neigh_ex 3 2) + 2 < energy_p g_one + 0 \<and>
   energy_p g_one + 0 < stress_p g_one + 6 * 0 \<and>
   for_loop 0 (n_neigh (atom_ex 1 [neigh_ex 1 1, neigh_ex 1 2, neigh_ex 3 2]) - 1)
     (triple_pass b_serial g_one m_two sw_one 0 0 (atom_ex 1 [neigh_ex 1 1, neigh_ex 1 2, neigh_ex 3 2]))
     (\<lambda>k. 7) (energy_p g_one + 0) = 7 + 2 / 9"
proof -
  let ?a = "atom_ex 1 [neigh_ex 1 1, neigh_ex 1 2, neigh_ex 3 2]"
  have h1: "3 * (cnfstart g_one 0 + 0) + 2 < energy_p g_one + 0"
    and h3: "energy_p g_one + 0 < stress_p g_one + 6 * 0"
    by (simp_all add: g_one_def)
  have n: "3 * neigh_nr (neigh_ex 1 1) + 2 < energy_p g_one + 0"
    "3 * neigh_nr (neigh_ex 1 2) + 2 < energy_p g_one + 0"
    "3 * neigh_nr (neigh_ex 3 2) + 2 < energy_p g_one + 0"
    by (simp_all add: g_one_def neigh_ex_def)
  have h2: "\<forall>nb \<in> set (atom_neigh ?a). 3 * neigh_nr nb + 2 < energy_p g_one + 0"
    using n by (simp add: atom_ex_def)
  have len: "n_neigh ?a = 3" by (simp add: n_neigh_def atom_ex_def)
  have v: "v3_spec m_two sw_one ?a 0 1 = 2 / 9" "v3_spec m_two sw_one ?a 0 2 = 0"
    "v3_spec m_two sw_one ?a 1 2 = 0"
    by (simp_all add: v3_spec_def atom_ex_def neigh_ex_def m_two_def power2_eq_square)
  have i: "{0..<3::nat} = {0, 1, 2}" "{Suc 0..<3} = {1, 2}" "{Suc (Suc 0)..<3} = {2}"
    "{Suc 2..<3} = {}"
    by auto
  have "(\<Sum>jj = 0..<3. \<Sum>kk = Suc jj..<3. v3_spec m_two sw_one ?a jj kk)
          = v3_spec m_two sw_one ?a 0 1 + v3_spec m_two sw_one ?a 0 2 + v3_spec m_two sw_one ?a 1 2"
    by (simp add: i)
  then have s: "(\<Sum>jj = 0..<3. \<Sum>kk = Suc jj..<3. v3_spec m_two sw_one ?a jj kk) = 2 / 9"
    by (simp only: v)
  from triple_energy_once[OF h1 h2 h3, of b_serial m_two sw_one "\<lambda>k. 7"]
  have "for_loop 0 (n_neigh ?a - 1) (triple_pass b_serial g_one m_two sw_one 0 0 ?a)
     (\<lambda>k. 7) (energy_p g_one + 0) = 7 + 2 / 9"
    by (simp only: len s)
  with h1 n h3 show ?thesis by blast
qed

subsection \<open>Momentum\<close>

















subsection \<open>The residuals of a configuration\<close>

lemma sum_force_forces:
  assumes "x < 3 * (cnfstart g h + i) \<or> 3 * (cnfstart g h + i) + 2 < x"
  shows "forces (sum_force b g h i st) x = forces st x"
  using assms by (auto simp: sum_force_def Let_def)

lemma conf_forces_forces:
  assumes "\<forall>i<inconf g h. 3 * (cnfstart g h + i) + 2 < x"
  shows "forces (conf_forces b g h st) x = forces st x"
proof (cases "conf_uf g (h - firstconf g) \<noteq> 0")
  case True
  have "forces (for_loop 0 (inconf g h) (sum_force b g h) st) x = forces st x"
  proof (rule for_loop_inv[where P = "\<lambda>_ t. forces t x = forces st x"])
    fix j and t :: state
    assume "j < inconf g h" and p: "forces t x = forces st x"
    with assms have "3 * (cnfstart g h + j) + 2 < x" by simp
    then show "forces (sum_force b g h j t) x = forces st x"
      by (simp add: sum_force_forces p del: distrib_left_numeral)
  qed simp_all
  with True show ?thesis by (simp add: conf_forces_def)
next
  case False
  then show ?thesis by (simp add: conf_forces_def)
qed

lemma stress_contrib_forces:
  assumes "x < stress_p g + 6 * h"
  shows "forces (stress_contrib g h i st) x = forces st x"
  using assms by (simp add: stress_contrib_def Let_def)

lemma conf_stress_forces:
  assumes "x < stress_p g + 6 * h"
  shows "forces (conf_stress b g h st) x = forces st x"
proof -
  have "forces (for_loop 0 6 (stress_contrib g h) st) x = forces st x"
    by (rule for_loop_inv[where P = "\<lambda>_ t. forces (t::state) x = forces st x"])
       (simp_all add: stress_contrib_forces[OF assms])
  then show ?thesis by (simp add: conf_stress_def)
qed

lemma energy_contrib_forces:
  "forces (energy_contrib g h st) (energy_p g + h)
     = forces st (energy_p g + h) / real (inconf g h) - force_0 g (energy_p g + h)"
  by (simp add: energy_contrib_def Let_def)

lemma energy_contrib_tmpsum:
  "tmpsum (energy_contrib g h st)
     = tmpsum st + conf_weight g h * eweight g
         * (forces st (energy_p g + h) / real (inconf g h) - force_0 g (energy_p g + h)) ^ 2"
  by (simp add: energy_contrib_def Let_def dsquare_def power2_eq_square)

text \<open>
  C4. After the pair and three-body passes of a configuration, the energy stored
  for it is the accumulated sum divided by the number of its atoms, minus its
  reference energy, and the energy contribution raises the local sum by the
  weight of the configuration times \<^verbatim>\<open>eweight\<close> times the square of that residual
  (the configuration has atoms, and its energy slot lies behind its force slots
  and before its stress slots, as the buffer is laid out).
\<close>

theorem energy_normalised:
  assumes "0 < inconf g h"
    and "\<forall>i<inconf g h. 3 * (cnfstart g h + i) + 2 < energy_p g + h"
    and "energy_p g + h < stress_p g + 6 * h"
  shows "forces (conf_step b g h st) (energy_p g + h)
           = forces (conf_passes b g h st) (energy_p g + h) / real (inconf g h)
             - force_0 g (energy_p g + h) \<and>
         tmpsum (energy_contrib g h (conf_forces b g h (conf_passes b g h st)))
           = tmpsum (conf_forces b g h (conf_passes b g h st))
             + conf_weight g h * eweight g * (forces (conf_step b g h st) (energy_p g + h)) ^ 2"
proof -
  have 1: "forces (conf_step b g h st) (energy_p g + h)
           = forces (conf_passes b g h st) (energy_p g + h) / real (inconf g h)
             - force_0 g (energy_p g + h)"
    by (simp add: conf_step_def conf_stress_forces[OF assms(3)] energy_contrib_forces
        conf_forces_forces[OF assms(2)])
  show ?thesis
    by (simp add: 1 energy_contrib_tmpsum conf_forces_forces[OF assms(2)])
qed

theorem energy_normalised_witness:
  "0 < inconf g_one 0 \<and>
   3 * (cnfstart g_one 0 + 0) + 2 < energy_p g_one + 0 \<and>
   3 * (cnfstart g_one 0 + 1) + 2 < energy_p g_one + 0 \<and>
   3 * (cnfstart g_one 0 + 2) + 2 < energy_p g_one + 0 \<and>
   energy_p g_one + 0 < stress_p g_one + 6 * 0 \<and>
   forces (conf_step b_serial g_one 0 st_one) (energy_p g_one + 0)
     = forces (conf_passes b_serial g_one 0 st_one) (energy_p g_one + 0) / real (inconf g_one 0)
       - force_0 g_one (energy_p g_one + 0) \<and>
   tmpsum (energy_contrib g_one 0 (conf_forces b_serial g_one 0 (conf_passes b_serial g_one 0 st_one)))
     = tmpsum (conf_forces b_serial g_one 0 (conf_passes b_serial g_one 0 st_one))
       + conf_weight g_one 0 * eweight g_one
         * (forces (conf_step b_serial g_one 0 st_one) (energy_p g_one + 0)) ^ 2"
proof -
  have h1: "0 < inconf g_one 0" and h3: "energy_p g_one + 0 < stress_p g_one + 6 * 0"
    by (simp_all add: g_one_def)
  have i: "3 * (cnfstart g_one 0 + 0) + 2 < energy_p g_one + 0"
    "3 * (cnfstart g_one 0 + 1) + 2 < energy_p g_one + 0"
    "3 * (cnfstart g_one 0 + 2) + 2 < energy_p g_one + 0"
    by (simp_all add: g_one_def)
  have h2: "\<forall>i<inconf g_one 0. 3 * (cnfstart g_one 0 + i) + 2 < energy_p g_one + 0"
    by (simp add: g_one_def)
  from energy_normalised [OF h1 h2 h3, of b_serial st_one] h1 i h3
  show ?thesis by blast
qed

subsection \<open>The stress contributions\<close>

lemma six_cases:
  assumes "c < (6::nat)"
  obtains "c = 0" | "c = 1" | "c = 2" | "c = 3" | "c = 4" | "c = 5"
  using assms by linarith

lemma pair_stress_apply:
  assumes "c < 6"
  shows "pair_stress st rd tf fs (st + c) = fs (st + c) - 0.5 * pair_products rd tf ! c"
  using assms
  by (cases c rule: six_cases)
     (simp_all add: pair_stress_def Let_def sub_from_apply pair_products_def)

lemma triple_stress_apply:
  assumes "c < 6"
  shows "triple_stress st fj rj fk rk fs (st + c)
           = fs (st + c) + (sym_outer fj rj c + sym_outer fk rk c)"
  using assms
  by (cases c rule: six_cases)
     (simp_all add: triple_stress_def Let_def add_to_apply sym_outer_def algebra_simps)

lemma pair_term_stress:
  assumes "STRESS b" "conf_us g (h - firstconf g) \<noteq> 0" "conf_uf g (h - firstconf g) \<noteq> 0"
    and "neigh_r nj < m (sw_a1 s ! neigh_col nj)"
    and "energy_p g + h < stress_p g + 6 * h"
    and "3 * (cnfstart g h + i) + 2 < stress_p g + 6 * h"
    and "c < 6"
  shows "snd (pair_term b g m s h i nj (v0, fs)) (stress_p g + 6 * h + c) =
           fs (stress_p g + 6 * h + c)
           - 0.5 * pair_products (neigh_rdist nj)
               \<lparr> vec_x = vec_x (neigh_dist nj)
                    * (if neigh_nr nj = i + cnfstart g h then v2_grad (pair_eval m s (conf_uf g (h - firstconf g)) v0 nj) * 0.5
                       else v2_grad (pair_eval m s (conf_uf g (h - firstconf g)) v0 nj)),
                 vec_y = vec_y (neigh_dist nj)
                    * (if neigh_nr nj = i + cnfstart g h then v2_grad (pair_eval m s (conf_uf g (h - firstconf g)) v0 nj) * 0.5
                       else v2_grad (pair_eval m s (conf_uf g (h - firstconf g)) v0 nj)),
                 vec_z = vec_z (neigh_dist nj)
                    * (if neigh_nr nj = i + cnfstart g h then v2_grad (pair_eval m s (conf_uf g (h - firstconf g)) v0 nj) * 0.5
                       else v2_grad (pair_eval m s (conf_uf g (h - firstconf g)) v0 nj)) \<rparr> ! c"
proof -
  let ?S = "stress_p g + 6 * h"
  have fr: "add_to (add_to (add_to (add_to fs (energy_p g + h) v0) (3 * (cnfstart g h + i)) v1)
              (Suc (3 * (cnfstart g h + i))) v2) (Suc (Suc (3 * (cnfstart g h + i)))) v3 (?S + c)
            = fs (?S + c)"
    for v0 v1 v2 v3
    using assms(5,6) by (auto simp: add_to_apply)
  show ?thesis
    using assms(1-4)
    by (simp add: pair_term_def Let_def pair_stress_apply[OF assms(7)] fr
        del: distrib_left_numeral)
qed

lemma triple_term_stress:
  assumes "STRESS b" "conf_us g (h - firstconf g) \<noteq> 0"
    and "neigh_r (atom_neigh a ! kk) < m (sw_a2 s ! neigh_col (atom_neigh a ! kk))"
    and "m (sw_lambda s ! atom_typ a ! neigh_typ (atom_neigh a ! jj) ! neigh_typ (atom_neigh a ! kk)) \<noteq> 0"
    and "energy_p g + h < stress_p g + 6 * h"
    and "3 * (cnfstart g h + i) + 2 < stress_p g + 6 * h"
    and "3 * neigh_nr (atom_neigh a ! jj) + 2 < stress_p g + 6 * h"
    and "3 * neigh_nr (atom_neigh a ! kk) + 2 < stress_p g + 6 * h"
    and "c < 6"
  shows "snd (triple_term b g m s h i a jj kk (ijk, fs)) (stress_p g + 6 * h + c) =
           fs (stress_p g + 6 * h + c)
           + (sym_outer
                (force_j (triple_eval
                   (m (sw_lambda s ! atom_typ a ! neigh_typ (atom_neigh a ! jj) ! neigh_typ (atom_neigh a ! kk)))
                   (atom_neigh a ! jj) (atom_neigh a ! kk) (atom_angl_part a ! ijk)))
                (neigh_rdist (atom_neigh a ! jj)) c
              + sym_outer
                (force_k (triple_eval
                   (m (sw_lambda s ! atom_typ a ! neigh_typ (atom_neigh a ! jj) ! neigh_typ (atom_neigh a ! kk)))
                   (atom_neigh a ! jj) (atom_neigh a ! kk) (atom_angl_part a ! ijk)))
                (neigh_rdist (atom_neigh a ! kk)) c)"
proof -
  let ?S = "stress_p g + 6 * h"
  have fo: "triple_forces (fl b) (3 * (cnfstart g h + i)) (3 * neigh_nr (atom_neigh a ! jj))
              (3 * neigh_nr (atom_neigh a ! kk)) fj fk (add_to fs (energy_p g + h) v) (?S + c)
            = fs (?S + c)" for fj fk v
  proof -
    have "triple_forces (fl b) (3 * (cnfstart g h + i)) (3 * neigh_nr (atom_neigh a ! jj))
              (3 * neigh_nr (atom_neigh a ! kk)) fj fk (add_to fs (energy_p g + h) v) (?S + c)
            = add_to fs (energy_p g + h) v (?S + c)"
      using assms(6-8) by (intro triple_forces_frame) auto
    also have "\<dots> = fs (?S + c)"
      using assms(5) by (simp add: add_to_apply)
    finally show ?thesis .
  qed
  show ?thesis
    using assms(1-4)
    by (simp add: triple_term_def Let_def triple_stress_apply[OF assms(9)] fo
        del: distrib_left_numeral)
qed

text \<open>
  C5 (as amended). With stress fitting enabled, a pair term of a configuration
  that also has force fitting enabled (the stress update of the pair term sits in
  the branch of the forces) subtracts from stress component \<open>c\<close> of the
  configuration 0.5 times the product of a displacement and a force component, for
  the six products \<open>xx, yy, zz, xy, yz, zx\<close>: the factor 0.5 is on all six
  components, and an off-diagonal one is a single product. A three-body term adds the symmetrised outer products of \<open>force_j\<close> with \<open>r_j\<close> and
  of \<open>force_k\<close> with \<open>r_k\<close>, the diagonal without a factor and the off-diagonal sums
  with 0.5, in the order \<open>xx, yy, zz, yz, zx, xy\<close>. The two use opposite signs.
\<close>

theorem stress_pair_minus_triple_plus:
  assumes "STRESS b" and "conf_us g (h - firstconf g) \<noteq> 0" and "c < 6"
    and "energy_p g + h < stress_p g + 6 * h"
    and "3 * (cnfstart g h + i) + 2 < stress_p g + 6 * h"
  shows "pair_stress st rd tf fs (st + c) = fs (st + c) - 0.5 * pair_products rd tf ! c \<and>
         triple_stress st fj rj fk rk fs (st + c)
           = fs (st + c) + (sym_outer fj rj c + sym_outer fk rk c) \<and>
         (conf_uf g (h - firstconf g) \<noteq> 0 \<and> neigh_r nj < m (sw_a1 s ! neigh_col nj) \<longrightarrow>
            snd (pair_term b g m s h i nj (v0, fs)) (stress_p g + 6 * h + c) =
              fs (stress_p g + 6 * h + c)
              - 0.5 * pair_products (neigh_rdist nj)
                  \<lparr> vec_x = vec_x (neigh_dist nj)
                       * (if neigh_nr nj = i + cnfstart g h then v2_grad (pair_eval m s (conf_uf g (h - firstconf g)) v0 nj) * 0.5
                          else v2_grad (pair_eval m s (conf_uf g (h - firstconf g)) v0 nj)),
                    vec_y = vec_y (neigh_dist nj)
                       * (if neigh_nr nj = i + cnfstart g h then v2_grad (pair_eval m s (conf_uf g (h - firstconf g)) v0 nj) * 0.5
                          else v2_grad (pair_eval m s (conf_uf g (h - firstconf g)) v0 nj)),
                    vec_z = vec_z (neigh_dist nj)
                       * (if neigh_nr nj = i + cnfstart g h then v2_grad (pair_eval m s (conf_uf g (h - firstconf g)) v0 nj) * 0.5
                          else v2_grad (pair_eval m s (conf_uf g (h - firstconf g)) v0 nj)) \<rparr> ! c) \<and>
         (neigh_r (atom_neigh a ! kk) < m (sw_a2 s ! neigh_col (atom_neigh a ! kk)) \<and>
          m (sw_lambda s ! atom_typ a ! neigh_typ (atom_neigh a ! jj) ! neigh_typ (atom_neigh a ! kk)) \<noteq> 0 \<and>
          3 * neigh_nr (atom_neigh a ! jj) + 2 < stress_p g + 6 * h \<and>
          3 * neigh_nr (atom_neigh a ! kk) + 2 < stress_p g + 6 * h \<longrightarrow>
            snd (triple_term b g m s h i a jj kk (ijk, fs)) (stress_p g + 6 * h + c) =
              fs (stress_p g + 6 * h + c)
              + (sym_outer
                   (force_j (triple_eval
                      (m (sw_lambda s ! atom_typ a ! neigh_typ (atom_neigh a ! jj) ! neigh_typ (atom_neigh a ! kk)))
                      (atom_neigh a ! jj) (atom_neigh a ! kk) (atom_angl_part a ! ijk)))
                   (neigh_rdist (atom_neigh a ! jj)) c
                 + sym_outer
                   (force_k (triple_eval
                      (m (sw_lambda s ! atom_typ a ! neigh_typ (atom_neigh a ! jj) ! neigh_typ (atom_neigh a ! kk)))
                      (atom_neigh a ! jj) (atom_neigh a ! kk) (atom_angl_part a ! ijk)))
                   (neigh_rdist (atom_neigh a ! kk)) c))"
  using assms pair_stress_apply[OF assms(3)] triple_stress_apply[OF assms(3)]
    pair_term_stress[OF assms(1,2) _ _ assms(4,5,3)]
    triple_term_stress[OF assms(1,2) _ _ assms(4,5) _ _ assms(3)]
  by simp

theorem stress_pair_minus_triple_plus_witness:
  "STRESS b_stress \<and> conf_us g_one (0 - firstconf g_one) \<noteq> 0 \<and> (3::nat) < 6 \<and>
   energy_p g_one + 0 < stress_p g_one + 6 * 0 \<and>
   3 * (cnfstart g_one 0 + 0) + 2 < stress_p g_one + 6 * 0 \<and>
   pair_stress 10 \<lparr> vec_x = 1, vec_y = 2, vec_z = 3 \<rparr> \<lparr> vec_x = 4, vec_y = 5, vec_z = 6 \<rparr> (\<lambda>k. 0) (10 + 3)
     = 0 - 0.5 * pair_products \<lparr> vec_x = 1, vec_y = 2, vec_z = 3 \<rparr> \<lparr> vec_x = 4, vec_y = 5, vec_z = 6 \<rparr> ! 3 \<and>
   triple_stress 10 \<lparr> vec_x = 1, vec_y = 2, vec_z = 3 \<rparr> \<lparr> vec_x = 4, vec_y = 5, vec_z = 6 \<rparr>
       \<lparr> vec_x = 7, vec_y = 8, vec_z = 9 \<rparr> \<lparr> vec_x = 1, vec_y = 1, vec_z = 1 \<rparr> (\<lambda>k. 0) (10 + 3)
     = 0 + (sym_outer \<lparr> vec_x = 1, vec_y = 2, vec_z = 3 \<rparr> \<lparr> vec_x = 4, vec_y = 5, vec_z = 6 \<rparr> 3
            + sym_outer \<lparr> vec_x = 7, vec_y = 8, vec_z = 9 \<rparr> \<lparr> vec_x = 1, vec_y = 1, vec_z = 1 \<rparr> 3)"
proof -
  have h: "STRESS b_stress" "conf_us g_one (0 - firstconf g_one) \<noteq> 0" "(3::nat) < 6"
    "energy_p g_one + 0 < stress_p g_one + 6 * 0"
    "3 * (cnfstart g_one 0 + 0) + 2 < stress_p g_one + 6 * 0"
    by (simp_all add: b_stress_def g_one_def)
  note t = stress_pair_minus_triple_plus [OF h, where st = 10
      and rd = "\<lparr> vec_x = 1, vec_y = 2, vec_z = 3 \<rparr>" and tf = "\<lparr> vec_x = 4, vec_y = 5, vec_z = 6 \<rparr>"
      and fs = "\<lambda>k. 0" and fj = "\<lparr> vec_x = 1, vec_y = 2, vec_z = 3 \<rparr>"
      and rj = "\<lparr> vec_x = 4, vec_y = 5, vec_z = 6 \<rparr>" and fk = "\<lparr> vec_x = 7, vec_y = 8, vec_z = 9 \<rparr>"
      and rk = "\<lparr> vec_x = 1, vec_y = 1, vec_z = 1 \<rparr>"]
  from t h show ?thesis by blast
qed

text \<open>
  C5 as stated fails for the pair term. For the displacement \<open>(1, 0, 0)\<close> and the
  pair force \<open>(1, 0, 0)\<close> the \<open>xx\<close> component of the symmetrised outer product is 1,
  and the pair term takes 0.5 from the \<open>xx\<close> stress component, not 1.
\<close>

theorem pair_stress_halves_diagonal:
  "pair_stress 10 \<lparr> vec_x = 1, vec_y = 0, vec_z = 0 \<rparr> \<lparr> vec_x = 1, vec_y = 0, vec_z = 0 \<rparr> (\<lambda>k. 0) 10
     = - (1 / 2) \<and>
   0 - sym_outer \<lparr> vec_x = 1, vec_y = 0, vec_z = 0 \<rparr> \<lparr> vec_x = 1, vec_y = 0, vec_z = 0 \<rparr> 0 = - 1"
  by (simp add: pair_stress_def Let_def sub_from_apply sym_outer_def)

subsection \<open>The weighting of the force residuals\<close>

lemma atom_pass_atom: "atom (atom_pass b g h i st) = i + cnfstart g h - firstatom g"
  by (simp add: atom_pass_def Let_def case_prod_beta)

lemma conf_passes_atom:
  assumes "0 < inconf g h"
  shows "atom (conf_passes b g h st) = inconf g h - 1 + cnfstart g h - firstatom g"
proof -
  let ?P = "\<lambda>j (t::state). 0 < j \<longrightarrow> atom t = j - 1 + cnfstart g h - firstatom g"
  have "?P (inconf g h) (for_loop 0 (inconf g h) (atom_pass b g h) (conf_reset b g h st))"
    by (rule for_loop_inv[where P = ?P]) (simp_all add: atom_pass_atom)
  with assms show ?thesis by (simp add: conf_passes_def)
qed

lemma sum_force_divisor:
  assumes "FWEIGHT b"
  shows "forces (sum_force b g h i st) (3 * (cnfstart g h + i))
           = forces st (3 * (cnfstart g h + i))
             / (FORCE_EPS g + atom_absforce (conf_atoms st ! atom st))"
  using assms by (simp add: sum_force_def Let_def del: distrib_left_numeral)

lemma for_loop_3: "for_loop 0 3 body s = body 2 (body 1 (body 0 s))"
  by (simp add: for_loop_fold upt_conv_Cons numeral_2_eq_2)

lemma conf_passes_st_one:
  "conf_passes b_fweight g_one 0 st_one =
     st_one\<lparr> forces := (\<lambda>k. if k < 9 then - 4 else 0), atom := 2 \<rparr>"
  by (simp add: conf_passes_def conf_reset_def for_loop_3 atom_pass_def reset_force_def
      for_loop_empty n_neigh_def Let_def g_one_def st_one_def b_fweight_def atom_ex_def fun_eq_iff)

text \<open>
  C6 fails on the code. In the configuration of \<open>g_one\<close> and \<open>st_one\<close> the atoms
  have the reference force magnitudes 1, 1 and 3, every reference force component
  is 4 and \<^verbatim>\<open>FORCE_EPS\<close> is 1. The residual \<open>-4\<close> of the first atom is divided by
  \<open>1 + 3\<close>, with the magnitude of the last atom of the configuration, where its
  own magnitude gives \<open>-4 / (1 + 1) = -2\<close>: the third loop reads \<^verbatim>\<open>atom\<close>, which the
  second loop left at the last atom (\<open>conf_passes_atom\<close>, \<open>sum_force_divisor\<close>).
\<close>

theorem fweight_uses_last_atom:
  "forces (conf_step b_fweight g_one 0 st_one) 0 = - 1 \<and>
   atom_absforce (conf_atoms st_one ! 0) = 1 \<and>
   atom_absforce (conf_atoms st_one ! 2) = 3 \<and>
   - force_0 g_one 0 / (FORCE_EPS g_one + atom_absforce (conf_atoms st_one ! 0)) = - 2"
proof -
  have "forces (conf_forces b_fweight g_one 0
                  (st_one\<lparr> forces := (\<lambda>k. if k < 9 then - 4 else 0), atom := 2 \<rparr>)) 0 = - 1"
    by (simp add: conf_forces_def for_loop_3 sum_force_def Let_def
        g_one_def st_one_def b_fweight_def atom_ex_def)
  then have "forces (conf_forces b_fweight g_one 0 (conf_passes b_fweight g_one 0 st_one)) 0 = - 1"
    by (simp only: conf_passes_st_one)
  then have "forces (conf_step b_fweight g_one 0 st_one) 0 = - 1"
    by (simp add: conf_step_def conf_stress_def energy_contrib_def Let_def b_fweight_def g_one_def)
  then show ?thesis
    by (simp add: st_one_def atom_ex_def g_one_def)
qed

subsection \<open>What the evaluation makes of the old buffer\<close>

lemma for_loop_rel:
  assumes "R s s'"
    and "\<And>j t t'. i \<le> j \<Longrightarrow> j < n \<Longrightarrow> R t t' \<Longrightarrow> R (body j t) (body j t')"
  shows "R (for_loop i n body s) (for_loop i n body s')"
proof (cases "i \<le> n")
  case True
  then show ?thesis
    using assms
  proof (induction n rule: dec_induct)
    case base
    then show ?case by (simp add: for_loop_empty)
  next
    case (step n)
    then show ?case by (simp add: for_loop_Suc)
  qed
next
  case False
  then show ?thesis using assms(1) by (simp add: for_loop_empty)
qed

lemma buf_agree_add_to: "buf_agree D f f' \<Longrightarrow> buf_agree D (add_to f i v) (add_to f' i v)"
  by (simp add: buf_agree_def add_to_apply)

lemma buf_agree_sub_from: "buf_agree D f f' \<Longrightarrow> buf_agree D (sub_from f i v) (sub_from f' i v)"
  by (simp add: buf_agree_def sub_from_apply)

lemma buf_agree_set: "buf_agree D f f' \<Longrightarrow> buf_agree (insert i D) (f(i := v)) (f'(i := v))"
  by (simp add: buf_agree_def)

lemma buf_agree_upd:
  "buf_agree D f f' \<Longrightarrow> (i \<in> D \<Longrightarrow> v = v') \<Longrightarrow> buf_agree D (f(i := v)) (f'(i := v'))"
  by (simp add: buf_agree_def)

lemma buf_agree_mono: "buf_agree D f f' \<Longrightarrow> D' \<subseteq> D \<Longrightarrow> buf_agree D' f f'"
  by (auto simp: buf_agree_def)

lemma buf_agree_pair_stress:
  "buf_agree D f f' \<Longrightarrow> buf_agree D (pair_stress st rd tf f) (pair_stress st rd tf f')"
  by (simp add: pair_stress_def Let_def buf_agree_sub_from)

lemma buf_agree_add_fl: "buf_agree D f f' \<Longrightarrow> buf_agree D (add_fl rnd f i v) (add_fl rnd f' i v)"
  by (simp add: buf_agree_def add_fl_apply)

lemma buf_agree_sub_fl: "buf_agree D f f' \<Longrightarrow> buf_agree D (sub_fl rnd f i v) (sub_fl rnd f' i v)"
  by (simp add: buf_agree_def sub_fl_apply)

lemma buf_agree_triple_forces:
  "buf_agree D f f' \<Longrightarrow>
   buf_agree D (triple_forces rnd k l n fj fk f) (triple_forces rnd k l n fj fk f')"
  by (simp add: triple_forces_def Let_def buf_agree_sub_fl buf_agree_add_fl)

lemma buf_agree_triple_stress:
  "buf_agree D f f' \<Longrightarrow>
   buf_agree D (triple_stress st fj rj fk rk f) (triple_stress st fj rj fk rk f')"
  by (simp add: triple_stress_def Let_def buf_agree_add_to)

lemma buf_agree_pair_term:
  assumes "buf_agree D f f'"
  shows "fst (pair_term b g m s h i nj (v0, f)) = fst (pair_term b g m s h i nj (v0, f'))"
    and "buf_agree D (snd (pair_term b g m s h i nj (v0, f))) (snd (pair_term b g m s h i nj (v0, f')))"
  using assms
  by (simp_all add: pair_term_def Let_def buf_agree_add_to buf_agree_pair_stress)

lemma buf_agree_triple_term:
  assumes "buf_agree D f f'"
  shows "fst (triple_term b g m s h i a jj kk (ijk, f)) = fst (triple_term b g m s h i a jj kk (ijk, f'))"
    and "buf_agree D (snd (triple_term b g m s h i a jj kk (ijk, f)))
           (snd (triple_term b g m s h i a jj kk (ijk, f')))"
  using assms
  by (simp_all add: triple_term_def Let_def buf_agree_add_to buf_agree_triple_forces
      buf_agree_triple_stress)

lemma buf_agree_triple_pass:
  assumes "buf_agree D f f'"
  shows "buf_agree D (triple_pass b g m s h i a jj f) (triple_pass b g m s h i a jj f')"
proof -
  let ?R = "\<lambda>t t'. fst t = fst t' \<and> buf_agree D (snd t) (snd t')"
  have "?R (for_loop (jj + 1) (n_neigh a) (triple_term b g m s h i a jj) (neigh_ijk_start (atom_neigh a ! jj), f))
           (for_loop (jj + 1) (n_neigh a) (triple_term b g m s h i a jj) (neigh_ijk_start (atom_neigh a ! jj), f'))"
  proof (rule for_loop_rel[where R = ?R])
    show "?R (neigh_ijk_start (atom_neigh a ! jj), f) (neigh_ijk_start (atom_neigh a ! jj), f')"
      using assms by simp
  next
    fix j and t t' :: "nat \<times> (nat \<Rightarrow> real)"
    assume r: "?R t t'"
    obtain c u where t: "t = (c, u)" by (cases t)
    obtain c' u' where t': "t' = (c', u')" by (cases t')
    from r t t' have "c' = c" "buf_agree D u u'" by simp_all
    then show "?R (triple_term b g m s h i a jj j t) (triple_term b g m s h i a jj j t')"
      using buf_agree_triple_term[of D u u' b g m s h i a jj j c] by (simp add: t t')
  qed
  then show ?thesis
    by (simp add: triple_pass_def Let_def assms)
qed

lemma buf_agree_neigh_loop:
  assumes "buf_agree D f f'"
  shows "fst (for_loop 0 n (neigh_pass b g m s h i) (a, v0, f))
           = fst (for_loop 0 n (neigh_pass b g m s h i) (a, v0, f'))"
    and "fst (snd (for_loop 0 n (neigh_pass b g m s h i) (a, v0, f)))
           = fst (snd (for_loop 0 n (neigh_pass b g m s h i) (a, v0, f')))"
    and "buf_agree D (snd (snd (for_loop 0 n (neigh_pass b g m s h i) (a, v0, f))))
           (snd (snd (for_loop 0 n (neigh_pass b g m s h i) (a, v0, f'))))"
proof -
  let ?R = "\<lambda>t t'. fst t = fst t' \<and> fst (snd t) = fst (snd t') \<and>
                   buf_agree D (snd (snd t)) (snd (snd t'))"
  have "?R (for_loop 0 n (neigh_pass b g m s h i) (a, v0, f))
           (for_loop 0 n (neigh_pass b g m s h i) (a, v0, f'))"
  proof (rule for_loop_rel[where R = ?R])
    show "?R (a, v0, f) (a, v0, f')" using assms by simp
  next
    fix j and t t' :: "atom_t \<times> real \<times> (nat \<Rightarrow> real)"
    assume r: "?R t t'"
    obtain c v u where t: "t = (c, v, u)" by (cases t)
    obtain c' v' u' where t': "t' = (c', v', u')" by (cases t')
    from r t t' have "c' = c" "v' = v" "buf_agree D u u'" by simp_all
    then show "?R (neigh_pass b g m s h i j t) (neigh_pass b g m s h i j t')"
      using buf_agree_pair_term[of D u u' b g m s h i "atom_neigh c ! j" v]
      by (simp add: t t' neigh_pass_def Let_def)
  qed
  then show "fst (for_loop 0 n (neigh_pass b g m s h i) (a, v0, f))
           = fst (for_loop 0 n (neigh_pass b g m s h i) (a, v0, f'))"
    and "fst (snd (for_loop 0 n (neigh_pass b g m s h i) (a, v0, f)))
           = fst (snd (for_loop 0 n (neigh_pass b g m s h i) (a, v0, f')))"
    and "buf_agree D (snd (snd (for_loop 0 n (neigh_pass b g m s h i) (a, v0, f))))
           (snd (snd (for_loop 0 n (neigh_pass b g m s h i) (a, v0, f'))))"
    by simp_all
qed

lemma buf_agree_triple_loop:
  assumes "buf_agree D f f'"
  shows "buf_agree D (for_loop 0 n (triple_pass b g m s h i a) f)
           (for_loop 0 n (triple_pass b g m s h i a) f')"
  by (rule for_loop_rel[where R = "buf_agree D"]) (simp_all add: assms buf_agree_triple_pass)

lemma same_but_bufferI:
  "buf_agree D (forces st) f' \<Longrightarrow> same_but_buffer D st (st\<lparr> forces := f' \<rparr>)"
  by (simp add: same_but_buffer_def)

lemma same_but_bufferE:
  assumes "same_but_buffer D st st'"
  obtains f' where "st' = st\<lparr> forces := f' \<rparr>" "buf_agree D (forces st) f'"
  using assms by (auto simp: same_but_buffer_def)

lemma same_but_buffer_mono: "same_but_buffer D st st' \<Longrightarrow> D' \<subseteq> D \<Longrightarrow> same_but_buffer D' st st'"
  by (auto simp: same_but_buffer_def intro: buf_agree_mono)

lemma atom_pass_rel:
  assumes "same_but_buffer D st st'"
  shows "same_but_buffer D (atom_pass b g h i st) (atom_pass b g h i st')"
proof -
  from assms obtain f' where st': "st' = st\<lparr> forces := f' \<rparr>" and a: "buf_agree D (forces st) f'"
    by (rule same_but_bufferE)
  let ?ai = "i + cnfstart g h - firstatom g"
  let ?n = "n_neigh (conf_atoms st ! ?ai)"
  note nl = buf_agree_neigh_loop[OF a, of ?n b g "mem st" "sw st" h i "conf_atoms st ! ?ai"
      "last_v2_grad st"]
  let ?a1 = "fst (for_loop 0 ?n (neigh_pass b g (mem st) (sw st) h i)
                    (conf_atoms st ! ?ai, last_v2_grad st, forces st))"
  have "buf_agree D
          (for_loop 0 (n_neigh ?a1 - 1) (triple_pass b g (mem st) (sw st) h i ?a1)
             (snd (snd (for_loop 0 ?n (neigh_pass b g (mem st) (sw st) h i)
                          (conf_atoms st ! ?ai, last_v2_grad st, forces st)))))
          (for_loop 0 (n_neigh ?a1 - 1) (triple_pass b g (mem st) (sw st) h i ?a1)
             (snd (snd (for_loop 0 ?n (neigh_pass b g (mem st) (sw st) h i)
                          (conf_atoms st ! ?ai, last_v2_grad st, f')))))"
    by (rule buf_agree_triple_loop[OF nl(3)])
  then show ?thesis
    using nl(1,2)
    by (simp add: st' atom_pass_def Let_def case_prod_beta same_but_buffer_def)
qed

lemma for_loop_rel_idx:
  assumes "R i s s'"
    and "\<And>j t t'. i \<le> j \<Longrightarrow> j < n \<Longrightarrow> R j t t' \<Longrightarrow> R (Suc j) (body j t) (body j t')"
    and "i \<le> n"
  shows "R n (for_loop i n body s) (for_loop i n body s')"
  using assms(3,1,2)
proof (induction n rule: dec_induct)
  case base
  then show ?case by (simp add: for_loop_empty)
next
  case (step n)
  then show ?case by (simp add: for_loop_Suc)
qed

lemma same_but_buffer_upd:
  assumes "same_but_buffer D t t'"
    and "\<And>f f'. buf_agree D f f' \<Longrightarrow> buf_agree D' (F f) (F f')"
  shows "same_but_buffer D' (t\<lparr> forces := F (forces t) \<rparr>) (t'\<lparr> forces := F (forces t') \<rparr>)"
proof -
  from assms(1) obtain f' where t': "t' = t\<lparr> forces := f' \<rparr>" and a: "buf_agree D (forces t) f'"
    by (rule same_but_bufferE)
  from assms(2)[OF a] show ?thesis
    by (simp add: t' same_but_buffer_def)
qed

lemma conf_reset_rel:
  assumes "same_but_buffer D st st'"
  shows "same_but_buffer (D \<union> owned b g h) (conf_reset b g h st) (conf_reset b g h st')"
proof -
  let ?E = "energy_p g + h"
  let ?S = "stress_p g + 6 * h"
  let ?t1 = "\<lambda>t::state. t\<lparr> forces := (forces t)(?E := 0) \<rparr>"
  let ?sb = "\<lambda>i (t::state). t\<lparr> forces := (forces t)(?S + i := 0) \<rparr>"
  let ?t2 = "\<lambda>t. if STRESS b then for_loop 0 6 ?sb (?t1 t) else ?t1 t"
  let ?fb = "\<lambda>i (t::state). t\<lparr> forces := reset_force g h i (forces t) \<rparr>"
  let ?D1 = "insert ?E D"
  let ?D2 = "?D1 \<union> (if STRESS b then {?S + c | c. c < 6} else {})"
  have 1: "same_but_buffer ?D1 (?t1 st) (?t1 st')"
    by (rule same_but_buffer_upd[OF assms, where F = "\<lambda>f. f(?E := 0)"])
       (simp add: buf_agree_def)
  have 2: "same_but_buffer ?D2 (?t2 st) (?t2 st')"
  proof (cases "STRESS b")
    case True
    have "same_but_buffer (?D1 \<union> {?S + c | c. c < 6}) (for_loop 0 6 ?sb (?t1 st)) (for_loop 0 6 ?sb (?t1 st'))"
    proof (rule for_loop_rel_idx[where R = "\<lambda>j. same_but_buffer (?D1 \<union> {?S + c | c. c < j})"])
      show "same_but_buffer (?D1 \<union> {?S + c | c. c < 0}) (?t1 st) (?t1 st')"
        using 1 by simp
    next
      fix j and t t' :: state
      assume r: "same_but_buffer (?D1 \<union> {?S + c | c. c < j}) t t'"
      show "same_but_buffer (?D1 \<union> {?S + c | c. c < Suc j}) (?sb j t) (?sb j t')"
        by (rule same_but_buffer_upd[OF r, where F = "\<lambda>f. f(?S + j := 0)"])
           (auto simp: buf_agree_def less_Suc_eq)
    qed simp
    with True show ?thesis by simp
  next
    case False
    with 1 show ?thesis by simp
  qed
  have 3: "same_but_buffer (?D2 \<union> {3 * (cnfstart g h + i) + c | i c. i < inconf g h \<and> c < 3})
             (for_loop 0 (inconf g h) ?fb (?t2 st)) (for_loop 0 (inconf g h) ?fb (?t2 st'))"
  proof (rule for_loop_rel_idx[where
        R = "\<lambda>j. same_but_buffer (?D2 \<union> {3 * (cnfstart g h + i) + c | i c. i < j \<and> c < 3})"])
    show "same_but_buffer (?D2 \<union> {3 * (cnfstart g h + i) + c | i c. i < 0 \<and> c < 3}) (?t2 st) (?t2 st')"
      using 2 by simp
  next
    fix j and t t' :: state
    assume r: "same_but_buffer (?D2 \<union> {3 * (cnfstart g h + i) + c | i c. i < j \<and> c < 3}) t t'"
    have c3: "c < 3 \<longleftrightarrow> c = 0 \<or> c = 1 \<or> c = 2" for c :: nat by auto
    show "same_but_buffer (?D2 \<union> {3 * (cnfstart g h + i) + c | i c. i < Suc j \<and> c < 3})
                   (?fb j t) (?fb j t')"
      by (rule same_but_buffer_upd[OF r, where F = "reset_force g h j"])
         (auto simp: buf_agree_def reset_force_def Let_def less_Suc_eq c3
            simp del: distrib_left_numeral)
  qed simp
  have D: "D \<union> owned b g h
             = ?D2 \<union> {3 * (cnfstart g h + i) + c | i c. i < inconf g h \<and> c < 3}"
    by (auto simp: owned_def)
  show ?thesis
    using 3 unfolding D conf_reset_def Let_def .
qed

lemma sum_force_rel:
  assumes "same_but_buffer D st st'"
    and "3 * (cnfstart g h + i) \<in> D" "3 * (cnfstart g h + i) + 1 \<in> D" "3 * (cnfstart g h + i) + 2 \<in> D"
  shows "same_but_buffer D (sum_force b g h i st) (sum_force b g h i st')"
proof -
  from assms(1) obtain f' where st': "st' = st\<lparr> forces := f' \<rparr>" and a: "buf_agree D (forces st) f'"
    by (rule same_but_bufferE)
  let ?k = "3 * (cnfstart g h + i)"
  from a assms(2-4) have e: "forces st ?k = f' ?k" "forces st (?k + 1) = f' (?k + 1)"
    "forces st (?k + 2) = f' (?k + 2)"
    by (simp_all add: buf_agree_def)
  show ?thesis
    using a e
    by (simp add: st' sum_force_def Let_def same_but_buffer_def buf_agree_def
        del: distrib_left_numeral)
qed

lemma conf_forces_rel:
  assumes "same_but_buffer D st st'" "owned b g h \<subseteq> D"
  shows "same_but_buffer D (conf_forces b g h st) (conf_forces b g h st')"
proof -
  have "same_but_buffer D (for_loop 0 (inconf g h) (sum_force b g h) st)
          (for_loop 0 (inconf g h) (sum_force b g h) st')"
  proof (rule for_loop_rel[where R = "same_but_buffer D"])
    fix j and t t' :: state
    assume j: "j < inconf g h" and r: "same_but_buffer D t t'"
    have "3 * (cnfstart g h + j) + c \<in> owned b g h" if "c < 3" for c
      using j that unfolding owned_def by blast
    from this[of 0] this[of 1] this[of 2] assms(2)
    have "3 * (cnfstart g h + j) \<in> D" "3 * (cnfstart g h + j) + 1 \<in> D" "3 * (cnfstart g h + j) + 2 \<in> D"
      by auto
    then show "same_but_buffer D (sum_force b g h j t) (sum_force b g h j t')"
      by (rule sum_force_rel[OF r])
  qed (rule assms(1))
  then show ?thesis using assms(1) by (simp add: conf_forces_def)
qed

lemma energy_contrib_rel:
  assumes "same_but_buffer D st st'" "energy_p g + h \<in> D"
  shows "same_but_buffer D (energy_contrib g h st) (energy_contrib g h st')"
proof -
  from assms(1) obtain f' where st': "st' = st\<lparr> forces := f' \<rparr>" and a: "buf_agree D (forces st) f'"
    by (rule same_but_bufferE)
  from a assms(2) have "forces st (energy_p g + h) = f' (energy_p g + h)"
    by (simp add: buf_agree_def)
  then show ?thesis
    using a by (simp add: st' energy_contrib_def Let_def same_but_buffer_def buf_agree_def)
qed

lemma stress_contrib_rel:
  assumes "same_but_buffer D st st'" "stress_p g + 6 * h + i \<in> D"
  shows "same_but_buffer D (stress_contrib g h i st) (stress_contrib g h i st')"
proof -
  from assms(1) obtain f' where st': "st' = st\<lparr> forces := f' \<rparr>" and a: "buf_agree D (forces st) f'"
    by (rule same_but_bufferE)
  from a assms(2) have "forces st (stress_p g + 6 * h + i) = f' (stress_p g + 6 * h + i)"
    by (simp add: buf_agree_def)
  then show ?thesis
    using a by (simp add: st' stress_contrib_def Let_def same_but_buffer_def buf_agree_def)
qed

lemma conf_stress_rel:
  assumes "same_but_buffer D st st'" "owned b g h \<subseteq> D"
  shows "same_but_buffer D (conf_stress b g h st) (conf_stress b g h st')"
proof (cases "STRESS b")
  case True
  have "same_but_buffer D (for_loop 0 6 (stress_contrib g h) st) (for_loop 0 6 (stress_contrib g h) st')"
  proof (rule for_loop_rel[where R = "same_but_buffer D"])
    fix j :: nat and t t' :: state
    assume j: "j < 6" and r: "same_but_buffer D t t'"
    from j True have "stress_p g + 6 * h + j \<in> owned b g h"
      unfolding owned_def by auto
    with assms(2) have "stress_p g + 6 * h + j \<in> D" by auto
    then show "same_but_buffer D (stress_contrib g h j t) (stress_contrib g h j t')"
      by (rule stress_contrib_rel[OF r])
  qed (rule assms(1))
  then show ?thesis using assms(1) by (simp add: conf_stress_def)
next
  case False
  then show ?thesis using assms(1) by (simp add: conf_stress_def)
qed

lemma conf_step_rel:
  assumes "same_but_buffer D st st'"
  shows "same_but_buffer (D \<union> owned b g h) (conf_step b g h st) (conf_step b g h st')"
proof -
  let ?D = "D \<union> owned b g h"
  have o: "owned b g h \<subseteq> ?D" by simp
  have e: "energy_p g + h \<in> ?D" by (simp add: owned_def)
  have 1: "same_but_buffer ?D (conf_passes b g h st) (conf_passes b g h st')"
    unfolding conf_passes_def
    by (rule for_loop_rel[where R = "same_but_buffer ?D"])
       (simp_all add: conf_reset_rel[OF assms] atom_pass_rel)
  show ?thesis
    unfolding conf_step_def
    by (intro conf_stress_rel[OF _ o] energy_contrib_rel[OF _ e] conf_forces_rel[OF _ o] 1)
qed

lemma evaluate_rel:
  assumes "same_but_buffer {} st st'"
  shows "same_but_buffer (\<Union>h \<in> {firstconf g..<firstconf g + myconf st}. owned b g h)
           (evaluate b g xi st) (evaluate b g xi st')"
proof -
  from assms obtain f' where st': "st' = st\<lparr> forces := f' \<rparr>"
    by (rule same_but_bufferE)
  let ?u = "\<lambda>t::state. t\<lparr> sw := update_stiweb_pointers (paircol g) (ntypes g) xi (sw t) \<rparr>"
  have 0: "same_but_buffer {} (?u st) (?u st')"
    by (simp add: st' same_but_buffer_def buf_agree_def)
  have "same_but_buffer (\<Union>h \<in> {firstconf g..<firstconf g + myconf st}. owned b g h)
          (for_loop (firstconf g) (firstconf g + myconf st) (conf_step b g) (?u st))
          (for_loop (firstconf g) (firstconf g + myconf st) (conf_step b g) (?u st'))"
  proof (rule for_loop_rel_idx[where
        R = "\<lambda>j. same_but_buffer (\<Union>h \<in> {firstconf g..<j}. owned b g h)"])
    show "same_but_buffer (\<Union>h \<in> {firstconf g..<firstconf g}. owned b g h) (?u st) (?u st')"
      using 0 by simp
  next
    fix j and t t' :: state
    assume j: "firstconf g \<le> j" and r: "same_but_buffer (\<Union>h \<in> {firstconf g..<j}. owned b g h) t t'"
    from j have "(\<Union>h \<in> {firstconf g..<Suc j}. owned b g h)
                   = (\<Union>h \<in> {firstconf g..<j}. owned b g h) \<union> owned b g j"
      by (auto simp: less_Suc_eq)
    then show "same_but_buffer (\<Union>h \<in> {firstconf g..<Suc j}. owned b g h)
                 (conf_step b g j t) (conf_step b g j t')"
      using conf_step_rel[OF r, of b g j] by simp
  qed simp
  then show ?thesis
    by (simp add: evaluate_def Let_def st')
qed

subsection \<open>The build without MPI\<close>

lemma evaluate_overwrites:
  "tmpsum (evaluate b g xi (st\<lparr> forces := f \<rparr>)) = tmpsum (evaluate b g xi st) \<and>
   (\<forall>h x. firstconf g \<le> h \<and> h < firstconf g + myconf st \<and> x \<in> owned b g h \<longrightarrow>
      forces (evaluate b g xi (st\<lparr> forces := f \<rparr>)) x = forces (evaluate b g xi st) x)"
proof -
  have "same_but_buffer {} st (st\<lparr> forces := f \<rparr>)"
    by (rule same_but_bufferI) (simp add: buf_agree_def)
  from evaluate_rel[OF this, where g = g and b = b and xi = xi]
  have r: "same_but_buffer (\<Union>h \<in> {firstconf g..<firstconf g + myconf st}. owned b g h)
             (evaluate b g xi st) (evaluate b g xi (st\<lparr> forces := f \<rparr>))" .
  then obtain f' where e: "evaluate b g xi (st\<lparr> forces := f \<rparr>) = (evaluate b g xi st)\<lparr> forces := f' \<rparr>"
    and a: "buf_agree (\<Union>h \<in> {firstconf g..<firstconf g + myconf st}. owned b g h)
              (forces (evaluate b g xi st)) f'"
    by (rule same_but_bufferE)
  from a show ?thesis
    by (auto simp: e buf_agree_def)
qed

text \<open>
  C10. Without \<^verbatim>\<open>MPI\<close> (and with \<open>myid = 0\<close>, as the one process has it) the flag is
  not read: for every flag, 1 and 2 among them, the call makes one pass and
  returns. It clamps the parameters, evaluates all \<open>nconf\<close> configurations for the
  clamped vector, adds the penalty, counts one call, and returns the sum, or the
  sentinel \<open>10^31\<close> when the sum is not a number. The evaluation overwrites the
  buffer: its local sum and what it leaves in the slots of the configurations do
  not depend on what the buffer held before.
\<close>

theorem serial_call_ignores_flag:
  assumes "\<not> MPI b" and "myid g = 0"
  shows "calc_forces_stiweb b ex g xi_opt rounds flag st =
           Some (if isnan (fst (local_sum ex g xi_opt
                      (evaluate b g xi_opt
                         (st\<lparr> myconf := nconf g, tmpsum := 0,
                              mem := apot_check_params ex (mem st) xi_opt \<rparr>))))
                 then Fin (10 ^ 31)
                 else fst (local_sum ex g xi_opt
                      (evaluate b g xi_opt
                         (st\<lparr> myconf := nconf g, tmpsum := 0,
                              mem := apot_check_params ex (mem st) xi_opt \<rparr>))),
                 (snd (local_sum ex g xi_opt
                      (evaluate b g xi_opt
                         (st\<lparr> myconf := nconf g, tmpsum := 0,
                              mem := apot_check_params ex (mem st) xi_opt \<rparr>))))
                   \<lparr> fcalls := fcalls st + 1 \<rparr>) \<and>
         calc_forces_stiweb b ex g xi_opt rounds flag st
           = calc_forces_stiweb b ex g xi_opt rounds' flag' st \<and>
         mem (snd (local_sum ex g xi_opt
                (evaluate b g xi_opt
                   (st\<lparr> myconf := nconf g, tmpsum := 0,
                        mem := apot_check_params ex (mem st) xi_opt \<rparr>))))
           = apot_check_params ex (mem st) xi_opt \<and>
         tmpsum (evaluate b g xi_opt
                   (st\<lparr> myconf := nconf g, tmpsum := 0,
                        mem := apot_check_params ex (mem st) xi_opt, forces := f \<rparr>))
           = tmpsum (evaluate b g xi_opt
                   (st\<lparr> myconf := nconf g, tmpsum := 0,
                        mem := apot_check_params ex (mem st) xi_opt \<rparr>)) \<and>
         (\<forall>h x. firstconf g \<le> h \<and> h < firstconf g + nconf g \<and> x \<in> owned b g h \<longrightarrow>
            forces (evaluate b g xi_opt
                   (st\<lparr> myconf := nconf g, tmpsum := 0,
                        mem := apot_check_params ex (mem st) xi_opt, forces := f \<rparr>)) x
              = forces (evaluate b g xi_opt
                   (st\<lparr> myconf := nconf g, tmpsum := 0,
                        mem := apot_check_params ex (mem st) xi_opt \<rparr>)) x)"
proof -
  let ?st = "st\<lparr> myconf := nconf g, tmpsum := 0, mem := apot_check_params ex (mem st) xi_opt \<rparr>"
  have c: "calc_forces_stiweb b ex g xi_opt r fl st =
           Some (if isnan (fst (local_sum ex g xi_opt (evaluate b g xi_opt ?st)))
                 then Fin (10 ^ 31)
                 else fst (local_sum ex g xi_opt (evaluate b g xi_opt ?st)),
                 (snd (local_sum ex g xi_opt (evaluate b g xi_opt ?st)))
                   \<lparr> fcalls := fcalls st + 1 \<rparr>)" for r fl
    using assms
    by (simp add: calc_forces_stiweb_def calc_loop_root_serial root_return_eq
        serial_iteration_def local_sum_frame evaluate_frame)
  have m: "mem (snd (local_sum ex g xi_opt (evaluate b g xi_opt ?st)))
             = apot_check_params ex (mem st) xi_opt"
    by (simp add: local_sum_frame evaluate_frame)
  from evaluate_overwrites[where b = b and g = g and xi = xi_opt and st = ?st and f = f]
  have o: "tmpsum (evaluate b g xi_opt (?st\<lparr> forces := f \<rparr>)) = tmpsum (evaluate b g xi_opt ?st)"
    "\<forall>h x. firstconf g \<le> h \<and> h < firstconf g + nconf g \<and> x \<in> owned b g h \<longrightarrow>
       forces (evaluate b g xi_opt (?st\<lparr> forces := f \<rparr>)) x = forces (evaluate b g xi_opt ?st) x"
    by simp_all
  show ?thesis
    using c[of rounds flag] c[of rounds' flag'] m o by simp
qed

lemma conf_step_st_one:
  "tmpsum (conf_step b_serial g_one 0 (st_one)) = 160"
proof -
  have p: "conf_passes b_serial g_one 0 (st_one) =
     st_one\<lparr> forces := (\<lambda>k. if k < 9 then - 4 else 0), atom := 2 \<rparr>"
    by (simp add: conf_passes_def conf_reset_def for_loop_3 atom_pass_def reset_force_def
        for_loop_empty n_neigh_def Let_def g_one_def st_one_def b_serial_def atom_ex_def fun_eq_iff)
  have "tmpsum (conf_stress b_serial g_one 0 (energy_contrib g_one 0 (conf_forces b_serial g_one 0
          (st_one\<lparr> forces := (\<lambda>k. if k < 9 then - 4 else 0), atom := 2 \<rparr>)))) = 160"
    by (simp add: conf_stress_def energy_contrib_def conf_forces_def for_loop_3 sum_force_def
        Let_def dsquare_def g_one_def st_one_def b_serial_def atom_ex_def)
  then show ?thesis
    by (simp only: conf_step_def p)
qed

theorem serial_call_ignores_flag_witness:
  "\<not> MPI b_serial \<and> myid g_one = 0 \<and>
   fst (the (calc_forces_stiweb b_serial ex_plain g_one 100 [] 1 st_one)) = Fin 160 \<and>
   fst (the (calc_forces_stiweb b_serial ex_plain g_one 100 [] 2 st_one)) = Fin 160 \<and>
   fcalls (snd (the (calc_forces_stiweb b_serial ex_plain g_one 100 [] 1 st_one))) = 1"
proof -
  have h: "\<not> MPI b_serial" "myid g_one = 0"
    by (simp_all add: b_serial_def g_one_def)
  let ?st = "st_one\<lparr> myconf := nconf g_one, tmpsum := 0,
                    mem := apot_check_params ex_plain (mem st_one) 100 \<rparr>"
  have s: "?st = st_one"
    by (simp add: st_one_def g_one_def ex_plain_def)
  have u: "update_stiweb_pointers (paircol g_one) (ntypes g_one) 100 sw_one = sw_one"
    by (rule update_same) (simp_all add: sw_one_def sw_layout_def)
  have "evaluate b_serial g_one 100 (st_one)
          = conf_step b_serial g_one 0 (st_one)"
  proof -
    have v: "sw st_one = sw_one" "firstconf g_one = 0" "myconf st_one = Suc 0"
      by (simp_all add: st_one_def g_one_def)
    have e: "st_one\<lparr> sw := sw_one \<rparr> = st_one"
      by (simp add: st_one_def)
    show ?thesis
      by (simp add: evaluate_def Let_def u v e for_loop_Suc for_loop_empty)
  qed
  then have t: "tmpsum (evaluate b_serial g_one 100 ?st) = 160"
    by (simp only: s conf_step_st_one)
  have l: "fst (local_sum ex_plain g_one 100 (evaluate b_serial g_one 100 ?st)) = Fin 160"
    using t by (simp add: local_sum_def g_one_def ex_plain_def)
  have f: "fcalls st_one = 0" by (simp add: st_one_def)
  note t1 = serial_call_ignores_flag [OF h, of ex_plain 100 "[]" 1 st_one "[]" 2 "\<lambda>k. 0"]
  from t1 have a1: "calc_forces_stiweb b_serial ex_plain g_one 100 [] 1 st_one =
      Some (if isnan (fst (local_sum ex_plain g_one 100 (evaluate b_serial g_one 100 ?st)))
            then Fin (10 ^ 31)
            else fst (local_sum ex_plain g_one 100 (evaluate b_serial g_one 100 ?st)),
            (snd (local_sum ex_plain g_one 100 (evaluate b_serial g_one 100 ?st)))
              \<lparr> fcalls := fcalls st_one + 1 \<rparr>)"
    by (rule conjunct1)
  from t1 have a2: "calc_forces_stiweb b_serial ex_plain g_one 100 [] 1 st_one
      = calc_forces_stiweb b_serial ex_plain g_one 100 [] 2 st_one"
    by (rule conjunct1[OF conjunct2])
  have c1: "fst (the (calc_forces_stiweb b_serial ex_plain g_one 100 [] 1 st_one)) = Fin 160"
    and c3: "fcalls (snd (the (calc_forces_stiweb b_serial ex_plain g_one 100 [] 1 st_one))) = 1"
    by (simp_all add: a1 l f)
  have c2: "fst (the (calc_forces_stiweb b_serial ex_plain g_one 100 [] 2 st_one)) = Fin 160"
    using c1 by (simp only: a2)
  from h c1 c2 c3 show ?thesis by simp
qed

end
